theory Spec2Isabelle
  imports Main "HOL-Library.Word"
begin

unbundle bit_operations_syntax

section \<open>Bytes and errors\<close>

type_synonym byte = "8 word"
type_synonym bytes = "byte list"

text \<open>
  A signal protocol address: the pair the source passes to
  \<^verbatim>\<open>new libsignal.SignalProtocolAddress(name, deviceId)\<close>.
\<close>

type_synonym address = "string \<times> nat"

text \<open>
  The JavaScript exceptions the receiver sees. \<open>JsError name message identityKey\<close> is an
  error object with its \<^verbatim>\<open>name\<close>, its \<^verbatim>\<open>message\<close> and the optional
  \<^verbatim>\<open>identityKey\<close> property that libsignal attaches to an unknown-identity failure.
  The two classes of \<^verbatim>\<open>./errors\<close> that \<^verbatim>\<open>handleEnvelope\<close> tests with
  \<^verbatim>\<open>instanceof\<close> are constructors of their own.
\<close>

datatype error =
    JsError string string "bytes option"
  | IncomingIdentityKeyError address bytes "bytes option"
  | TextSecureError string

definition Error :: "string \<Rightarrow> error" where
  "Error msg = JsError ''Error'' msg None"

definition TypeError :: "string \<Rightarrow> error" where
  "TypeError msg = JsError ''TypeError'' msg None"

definition ReferenceError :: "string \<Rightarrow> error" where
  "ReferenceError msg = JsError ''ReferenceError'' msg None"

fun err_name :: "error \<Rightarrow> string" where
  "err_name (JsError n m k) = n"
| "err_name (IncomingIdentityKeyError a ct k) = ''IncomingIdentityKeyError''"
| "err_name (TextSecureError m) = ''TextSecureError''"

fun err_message :: "error \<Rightarrow> string" where
  "err_message (JsError n m k) = m"
| "err_message (IncomingIdentityKeyError a ct k) = ''''"
| "err_message (TextSecureError m) = m"

fun err_identityKey :: "error \<Rightarrow> bytes option" where
  "err_identityKey (JsError n m k) = k"
| "err_identityKey (IncomingIdentityKeyError a ct k) = k"
| "err_identityKey (TextSecureError m) = None"

text \<open>The error kinds of the specification, as the exceptions the source throws for them.\<close>

definition PaddingError :: error where
  "PaddingError = Error ''Invalid padding''"

definition BadTransportRequest :: error where
  "BadTransportRequest = Error ''Invalid WebSocket resource received''"

definition EmptyEnvelopeError :: error where
  "EmptyEnvelopeError = Error ''Received message with no content and no legacyMessage''"

definition UnknownEnvelopeType :: error where
  "UnknownEnvelopeType = Error ''Unknown message type''"

definition EmptyContentError :: error where
  "EmptyContentError = TypeError ''Got content message with no dataMessage or syncMessage''"

definition ForeignSyncError :: error where
  "ForeignSyncError = ReferenceError ''Received sync message from another addr''"

definition SelfSyncError :: error where
  "SelfSyncError = ReferenceError ''Received sync message from our own device''"

definition DeprecatedSync :: "string \<Rightarrow> error" where
  "DeprecatedSync what = TypeError (''Deprecated '' @ what @ '' sync message'')"

definition Unsupported :: error where
  "Unsupported = Error ''UNSUPPORTRED''"

definition EmptySync :: error where
  "EmptySync = TypeError ''Empty SyncMessage''"

definition NotIterable :: error where
  "NotIterable = TypeError ''undefined is not iterable''"

definition NoListenerTable :: error where
  "NoListenerTable = TypeError ''Cannot read properties of undefined''"

section \<open>Padding removal\<close>

text \<open>
  \<^verbatim>\<open>unpad(buf)\<close> of \<^verbatim>\<open>message_receiver.js\<close>: the loop runs \<^verbatim>\<open>i\<close> from
  \<^verbatim>\<open>buf.byteLength - 1\<close> down to \<^verbatim>\<open>0\<close>. \<open>unpad_from buf (Suc i)\<close> is the loop
  about to look at index \<open>i\<close>; \<open>unpad_from buf 0\<close> is the loop left with nothing found,
  where the source returns \<^verbatim>\<open>buf\<close> itself. \<^verbatim>\<open>buf.slice(0, i)\<close> is \<open>take i buf\<close>.
\<close>

fun unpad_from :: "bytes \<Rightarrow> nat \<Rightarrow> error + bytes" where
  "unpad_from buf 0 = Inr buf"
| "unpad_from buf (Suc i) =
     (if buf ! i = 0x80 then Inr (take i buf)
      else if buf ! i \<noteq> 0x00 then Inl (Error ''Invalid padding'')
      else unpad_from buf i)"

definition unpad :: "bytes \<Rightarrow> error + bytes" where
  "unpad buf = unpad_from buf (length buf)"

section \<open>Protocol records\<close>

text \<open>
  The decoded protobuf objects, with the fields the receiver reads. An optional field that
  is \<^verbatim>\<open>null\<close> or \<^verbatim>\<open>undefined\<close> in JavaScript is \<open>None\<close>; an object or a
  \<^verbatim>\<open>Buffer\<close> is truthy whatever it holds, so a truthiness test of such a field is a test
  for \<open>Some\<close>. \<^verbatim>\<open>Long\<close> values are taken after \<^verbatim>\<open>toNumber()\<close>.
\<close>

datatype envelope_type = CIPHERTEXT | PREKEY_BUNDLE | RECEIPT | OTHER_TYPE nat

record Envelope =
  env_type :: envelope_type
  source :: string
  sourceDevice :: nat
  timestamp :: nat
  content :: "bytes option"
  legacyMessage :: "bytes option"
  keyChange :: "bool option"

record Attachment =
  att_id :: nat
  att_key :: bytes
  att_data :: "bytes option"

record DataMessage =
  msg_body :: "string option"
  flags :: "32 word option"
  expireTimer :: "nat option"
  msg_group :: "bytes option"
  attachments :: "Attachment list option"

record Sent =
  destination :: string
  sent_timestamp :: nat
  sent_message :: "DataMessage option"
  expire :: "nat option"

record Read =
  sender :: string
  read_timestamp :: nat

record SyncMessage =
  sent :: "Sent option"
  read :: "Read list option"
  contacts :: "bytes option"
  groups :: "bytes option"
  blocked :: "bytes option"
  request :: "bytes option"

record Content =
  syncMessage :: "SyncMessage option"
  dataMessage :: "DataMessage option"

section \<open>Events\<close>

record message_data =
  md_timestamp :: nat
  md_source :: string
  md_sourceDevice :: nat
  md_message :: DataMessage
  md_keyChange :: "bool option"

record sent_data =
  sd_source :: string
  sd_sourceDevice :: nat
  sd_timestamp :: nat
  sd_destination :: string
  sd_message :: DataMessage
  sd_expirationStartTimestamp :: "nat option"

record read_data =
  rd_timestamp :: nat
  rd_sender :: string
  rd_source :: string
  rd_sourceDevice :: nat

text \<open>
  What the receiver attaches to an event object after \<^verbatim>\<open>new Event(type)\<close>:
  \<^verbatim>\<open>error\<close> and \<^verbatim>\<open>proto\<close>; \<^verbatim>\<open>addr\<close> and \<^verbatim>\<open>identityKey\<close>; \<^verbatim>\<open>proto\<close>;
  \<^verbatim>\<open>data\<close>; \<^verbatim>\<open>timestamp\<close> and \<^verbatim>\<open>read\<close>.
\<close>

datatype event_data =
    NoData
  | ErrorData error "Envelope option"
  | KeychangeData address "bytes option"
  | ReceiptData Envelope
  | SentData sent_data
  | MessageData message_data
  | ReadData nat read_data

text \<open>
  An event object. \<open>accepted\<close> is the property a \<^verbatim>\<open>keychange\<close> listener may set; it
  is \<^verbatim>\<open>undefined\<close>, hence falsy, on a fresh event.
\<close>

record Event =
  ev_type :: string
  ev_data :: event_data
  accepted :: bool

definition new_Event :: "string \<Rightarrow> event_data \<Rightarrow> Event" where
  "new_Event ty d = \<lparr>ev_type = ty, ev_data = d, accepted = False\<rparr>"

section \<open>State, observable calls and control flow\<close>

datatype handler = DeliveryReceiptHandler | ContentMessageHandler | LegacyMessageHandler

text \<open>
  The calls the claims speak of, in the order they are made: \<^verbatim>\<open>request.respond\<close>,
  \<^verbatim>\<open>this.dispatchEvent\<close> and \<^verbatim>\<open>handler.call(this, envelope)\<close> inside
  \<^verbatim>\<open>handleEnvelope(envelope, reentrant)\<close>.
\<close>

datatype action =
    Respond nat string
  | DispatchEvent Event
  | CallHandler handler bool

text \<open>
  The state threaded through the asynchronous code: \<open>world\<close> is the state of everything
  outside the receiver (session store, service, whatever listeners touch), \<open>trace\<close> the
  record of the calls above. An \<^verbatim>\<open>async\<close> function is a state transformer that ends in
  a thrown error (\<open>Inl\<close>) or a value (\<open>Inr\<close>); \<^verbatim>\<open>await\<close> is sequencing.
\<close>

record 'w state =
  world :: 'w
  trace :: "action list"

type_synonym ('a, 'w) prog = "'w state \<Rightarrow> (error + 'a) \<times> 'w state"

definition ok :: "'a \<Rightarrow> ('a, 'w) prog" where
  "ok x s = (Inr x, s)"

definition raise :: "error \<Rightarrow> ('a, 'w) prog" where
  "raise e s = (Inl e, s)"

definition bnd :: "('a, 'w) prog \<Rightarrow> ('a \<Rightarrow> ('b, 'w) prog) \<Rightarrow> ('b, 'w) prog" where
  "bnd m f s = (case m s of (Inl e, s') \<Rightarrow> (Inl e, s') | (Inr x, s') \<Rightarrow> f x s')"

definition try_catch :: "('a, 'w) prog \<Rightarrow> (error \<Rightarrow> ('a, 'w) prog) \<Rightarrow> ('a, 'w) prog" where
  "try_catch m h s = (case m s of (Inl e, s') \<Rightarrow> h e s' | (Inr x, s') \<Rightarrow> (Inr x, s'))"

definition try_finally :: "('a, 'w) prog \<Rightarrow> (unit, 'w) prog \<Rightarrow> ('a, 'w) prog" where
  "try_finally m fin s =
     (case m s of (r, s') \<Rightarrow>
        (case fin s' of (Inl e, s'') \<Rightarrow> (Inl e, s'') | (Inr u, s'') \<Rightarrow> (r, s'')))"

definition lift :: "error + 'a \<Rightarrow> ('a, 'w) prog" where
  "lift r s = (r, s)"

definition ext :: "('w \<Rightarrow> (error + 'a) \<times> 'w) \<Rightarrow> ('a, 'w) prog" where
  "ext f s = (case f (world s) of (r, w') \<Rightarrow> (r, s\<lparr>world := w'\<rparr>))"

definition log :: "action \<Rightarrow> (unit, 'w) prog" where
  "log a s = (Inr (), s\<lparr>trace := trace s @ [a]\<rparr>)"

text \<open>
  \<^verbatim>\<open>Promise.all(xs.map(f))\<close>: the array of tasks is built eagerly, so every task is
  started; the result is the array of results or a failure. The tasks are taken in array
  order and the first failure in that order is reported; other interleavings of the
  asynchronous tasks are not modelled.
\<close>

fun promise_all :: "('a, 'w) prog list \<Rightarrow> ('a list, 'w) prog" where
  "promise_all [] s = (Inr [], s)"
| "promise_all (m # ms) s =
     (case m s of (r, s') \<Rightarrow>
        (case promise_all ms s' of (rs, s'') \<Rightarrow>
           (case r of
              Inl e \<Rightarrow> (Inl e, s'')
            | Inr x \<Rightarrow> (case rs of Inl e \<Rightarrow> (Inl e, s'') | Inr xs \<Rightarrow> (Inr (x # xs), s'')))))"

definition dispatched :: "'w state \<Rightarrow> Event list" where
  "dispatched s = concat (map (\<lambda>a. case a of DispatchEvent ev \<Rightarrow> [ev] | _ \<Rightarrow> []) (trace s))"

definition responses :: "'w state \<Rightarrow> nat list" where
  "responses s = concat (map (\<lambda>a. case a of Respond st reason \<Rightarrow> [st] | _ \<Rightarrow> []) (trace s))"

definition reentries :: "'w state \<Rightarrow> nat" where
  "reentries s = length (filter (\<lambda>a. case a of CallHandler h re \<Rightarrow> re | _ \<Rightarrow> False) (trace s))"

section \<open>The event target\<close>

text \<open>
  \<^verbatim>\<open>event_target.js\<close>. A listener is a function object: \<open>cb_ref\<close> is its identity (what
  \<^verbatim>\<open>x !== callback\<close> compares), \<open>cb_call\<close> what calling it does: it may throw, it may set
  properties of the event, it may change the world. \<open>listeners\<close> is the property
  \<^verbatim>\<open>_listeners\<close>: \<open>None\<close> while it is \<^verbatim>\<open>undefined\<close>, else the object that maps an
  event name to its array of callbacks (event names that are property names of
  \<^verbatim>\<open>Object.prototype\<close> are left aside). Arguments are typed, so the
  \<^verbatim>\<open>instanceof Event\<close> and \<^verbatim>\<open>typeof\<close> checks always pass. Listeners that change
  the listener table of the target they are called on are not modelled.
\<close>

record 'w listener =
  cb_ref :: nat
  cb_call :: "Event \<Rightarrow> 'w \<Rightarrow> error option \<times> Event \<times> 'w"

record 'w EventTarget =
  listeners :: "(string \<rightharpoonup> 'w listener list) option"

definition new_EventTarget :: "'w EventTarget" where
  "new_EventTarget = \<lparr>listeners = None\<rparr>"

text \<open>The \<^verbatim>\<open>for ... of\<close> loop of \<^verbatim>\<open>dispatchEvent\<close>: a listener's exception is logged and dropped.\<close>

fun call_listeners :: "'w listener list \<Rightarrow> Event \<Rightarrow> (Event, 'w) prog" where
  "call_listeners [] ev s = (Inr ev, s)"
| "call_listeners (callback # rest) ev s =
     (case cb_call callback ev (world s) of
        (thrown, ev', w') \<Rightarrow> call_listeners rest ev' (s\<lparr>world := w'\<rparr>))"

text \<open>
  \<^verbatim>\<open>dispatchEvent(ev)\<close>; the value is the event object as the listeners left it.
  Iterating \<^verbatim>\<open>this._listeners[ev.type]\<close> when that is \<^verbatim>\<open>undefined\<close> throws a
  \<^verbatim>\<open>TypeError\<close>.
\<close>

definition dispatchEvent :: "('w, 'z) EventTarget_scheme \<Rightarrow> Event \<Rightarrow> (Event, 'w) prog" where
  "dispatchEvent this ev =
     bnd (log (DispatchEvent ev)) (\<lambda>u.
       case listeners this of
         None \<Rightarrow> ok ev
       | Some table \<Rightarrow>
           (case table (ev_type ev) of
              None \<Rightarrow> raise NotIterable
            | Some callbacks \<Rightarrow> call_listeners callbacks ev))"

definition addEventListener ::
  "string \<Rightarrow> 'w listener \<Rightarrow> ('w, 'z) EventTarget_scheme \<Rightarrow> ('w, 'z) EventTarget_scheme" where
  "addEventListener eventName callback this =
     (let table = (case listeners this of None \<Rightarrow> Map.empty | Some t \<Rightarrow> t)
      in this\<lparr>listeners := Some
           (case table eventName of
              None \<Rightarrow> table(eventName \<mapsto> [callback])
            | Some callbacks \<Rightarrow> table(eventName \<mapsto> callbacks @ [callback]))\<rparr>)"

definition removeEventListener ::
  "string \<Rightarrow> 'w listener \<Rightarrow> ('w, 'z) EventTarget_scheme \<Rightarrow> error + ('w, 'z) EventTarget_scheme" where
  "removeEventListener eventName callback this =
     (case listeners this of
        None \<Rightarrow> Inl NoListenerTable
      | Some table \<Rightarrow>
          (case table eventName of
             None \<Rightarrow> Inr this
           | Some callbacks \<Rightarrow>
               Inr (this\<lparr>listeners := Some
                 (table(eventName \<mapsto> filter (\<lambda>x. cb_ref x \<noteq> cb_ref callback) callbacks))\<rparr>)))"

text \<open>A history of registrations and removals on one target, stopped by the first throw.\<close>

datatype 'w registration = Add string "'w listener" | Remove string "'w listener"

fun register :: "'w registration \<Rightarrow> 'w EventTarget \<Rightarrow> error + 'w EventTarget" where
  "register (Add eventName callback) this = Inr (addEventListener eventName callback this)"
| "register (Remove eventName callback) this = removeEventListener eventName callback this"

fun register_all :: "'w registration list \<Rightarrow> 'w EventTarget \<Rightarrow> error + 'w EventTarget" where
  "register_all [] this = Inr this"
| "register_all (r # rs) this =
     (case register r this of Inl e \<Rightarrow> Inl e | Inr this' \<Rightarrow> register_all rs this')"

fun is_Add :: "'w registration \<Rightarrow> bool" where
  "is_Add (Add eventName callback) = True"
| "is_Add (Remove eventName callback) = False"

fun adds :: "string \<Rightarrow> 'w registration \<Rightarrow> bool" where
  "adds ty (Add eventName callback) = (eventName = ty)"
| "adds ty (Remove eventName callback) = False"

section \<open>The receiver and its collaborators\<close>

text \<open>
  The modules \<^verbatim>\<open>message_receiver.js\<close> requires and that are outside the two source
  files (\<^verbatim>\<open>crypto\<close>, \<^verbatim>\<open>protobufs\<close>, \<^verbatim>\<open>libsignal\<close>, \<^verbatim>\<open>storage\<close>, the
  service \<^verbatim>\<open>tss\<close>, \<^verbatim>\<open>errors\<close>) are parameters: every call into them is a function
  that may fail, and those that touch the session store or the network read and write
  the world. \<open>END_SESSION\<close> is \<^verbatim>\<open>DATA_FLAGS.END_SESSION\<close>;
  \<open>identityKeyError_is_TextSecureError\<close> says whether
  \<^verbatim>\<open>errors.IncomingIdentityKeyError\<close> extends \<^verbatim>\<open>errors.TextSecureError\<close>.
  \<open>Envelope_decode\<close> stands for \<^verbatim>\<open>protobufs.Envelope.decode\<close> followed by
  \<^verbatim>\<open>envelope.timestamp.toNumber()\<close>.
\<close>

record 'w collab =
  decryptWebsocketMessage :: "bytes \<Rightarrow> bytes \<Rightarrow> error + bytes"
  Envelope_decode :: "bytes \<Rightarrow> error + Envelope"
  Content_decode :: "bytes \<Rightarrow> error + Content"
  DataMessage_decode :: "bytes \<Rightarrow> error + DataMessage"
  session_decryptWhisperMessage :: "address \<Rightarrow> bytes \<Rightarrow> 'w \<Rightarrow> (error + bytes) \<times> 'w"
  session_decryptPreKeyWhisperMessage :: "address \<Rightarrow> bytes \<Rightarrow> 'w \<Rightarrow> (error + bytes) \<times> 'w"
  closeOpenSessionForDevice :: "address \<Rightarrow> 'w \<Rightarrow> (error + unit) \<times> 'w"
  getDeviceIds :: "string \<Rightarrow> 'w \<Rightarrow> (error + nat list) \<times> 'w"
  getAttachment :: "nat \<Rightarrow> 'w \<Rightarrow> (error + bytes) \<times> 'w"
  decryptAttachment :: "bytes \<Rightarrow> bytes \<Rightarrow> error + bytes"
  END_SESSION :: "32 word"
  identityKeyError_is_TextSecureError :: bool

text \<open>\<^verbatim>\<open>class MessageReceiver extends EventTarget\<close>, with the fields the constructor sets.\<close>

record 'w MessageReceiver = "'w EventTarget" +
  addr :: string
  deviceId :: nat
  signalingKey :: bytes

text \<open>An inbound transport request; \<^verbatim>\<open>request.respond(status, reason)\<close> is recorded in the trace.\<close>

record Request =
  verb :: string
  path :: string
  body :: bytes

definition respond :: "nat \<Rightarrow> string \<Rightarrow> (unit, 'w) prog" where
  "respond status reason = log (Respond status reason)"

text \<open>\<^verbatim>\<open>flags & DATA_FLAGS.END_SESSION\<close> as a condition; \<^verbatim>\<open>null & n\<close> is \<^verbatim>\<open>0\<close>.\<close>

definition flag_set :: "32 word option \<Rightarrow> 32 word \<Rightarrow> bool" where
  "flag_set f m = (case f of None \<Rightarrow> False | Some v \<Rightarrow> v AND m \<noteq> 0)"

definition instanceof_IncomingIdentityKeyError :: "error \<Rightarrow> bool" where
  "instanceof_IncomingIdentityKeyError e =
     (case e of IncomingIdentityKeyError a ct k \<Rightarrow> True | _ \<Rightarrow> False)"

definition instanceof_TextSecureError :: "'w collab \<Rightarrow> error \<Rightarrow> bool" where
  "instanceof_TextSecureError c e =
     (case e of
        TextSecureError m \<Rightarrow> True
      | IncomingIdentityKeyError a ct k \<Rightarrow> identityKeyError_is_TextSecureError c
      | JsError n m k \<Rightarrow> False)"

definition handleDeliveryReceipt :: "'w MessageReceiver \<Rightarrow> Envelope \<Rightarrow> (unit, 'w) prog" where
  "handleDeliveryReceipt this envelope =
     bnd (dispatchEvent this (new_Event ''receipt'' (ReceiptData envelope))) (\<lambda>ev. ok ())"

definition decryptPreKeyWhisperMessage ::
  "'w collab \<Rightarrow> bytes \<Rightarrow> address \<Rightarrow> (bytes, 'w) prog" where
  "decryptPreKeyWhisperMessage c ciphertext address =
     try_catch
       (bnd (ext (session_decryptPreKeyWhisperMessage c address ciphertext)) (\<lambda>padded.
          lift (unpad padded)))
       (\<lambda>e. if err_message e = ''Unknown identity key''
             then raise (IncomingIdentityKeyError address ciphertext (err_identityKey e))
             else raise e)"

definition decrypt :: "'w collab \<Rightarrow> Envelope \<Rightarrow> bytes \<Rightarrow> (bytes, 'w) prog" where
  "decrypt c envelope ciphertext =
     (let address = (source envelope, sourceDevice envelope)
      in if env_type envelope = CIPHERTEXT then
           bnd (ext (session_decryptWhisperMessage c address ciphertext)) (\<lambda>padded.
             lift (unpad padded))
         else if env_type envelope = PREKEY_BUNDLE then
           decryptPreKeyWhisperMessage c ciphertext address
         else raise (Error ''Unknown message type''))"

definition handleEndSession :: "'w collab \<Rightarrow> string \<Rightarrow> (unit, 'w) prog" where
  "handleEndSession c a =
     bnd (ext (getDeviceIds c a)) (\<lambda>deviceIds.
     bnd (promise_all (map (\<lambda>d. ext (closeOpenSessionForDevice c (a, d))) deviceIds)) (\<lambda>us.
       ok ()))"

definition handleAttachment :: "'w collab \<Rightarrow> Attachment \<Rightarrow> (Attachment, 'w) prog" where
  "handleAttachment c attachment =
     bnd (ext (getAttachment c (att_id attachment))) (\<lambda>encrypted.
     bnd (lift (decryptAttachment c encrypted (att_key attachment))) (\<lambda>d.
       ok (attachment\<lparr>att_data := Some d\<rparr>)))"

text \<open>
  \<^verbatim>\<open>processDecrypted(msg, source)\<close> mutates \<^verbatim>\<open>msg\<close> and returns it; the value here is
  the message after the mutation. A legacy \<^verbatim>\<open>group\<close> is only logged.
\<close>

definition processDecrypted :: "'w collab \<Rightarrow> DataMessage \<Rightarrow> string \<Rightarrow> (DataMessage, 'w) prog" where
  "processDecrypted c msg src =
     (let msg1 = (if flags msg = None then msg\<lparr>flags := Some 0\<rparr> else msg);
          msg2 = (if expireTimer msg1 = None then msg1\<lparr>expireTimer := Some 0\<rparr> else msg1)
      in if flag_set (flags msg2) (END_SESSION c) then ok msg2
         else (case attachments msg2 of
                 None \<Rightarrow> ok msg2
               | Some atts \<Rightarrow>
                   bnd (promise_all (map (handleAttachment c) atts)) (\<lambda>atts'.
                     ok (msg2\<lparr>attachments := Some atts'\<rparr>))))"

definition handleSentMessage ::
  "'w collab \<Rightarrow> 'w MessageReceiver \<Rightarrow> Sent \<Rightarrow> Envelope \<Rightarrow> (unit, 'w) prog" where
  "handleSentMessage c this snt envelope =
     (case sent_message snt of
        None \<Rightarrow> raise (TypeError ''Cannot read properties of null'')
      | Some message \<Rightarrow>
          bnd (if flag_set (flags message) (END_SESSION c)
               then handleEndSession c (destination snt) else ok ()) (\<lambda>u.
          bnd (processDecrypted c message (addr this)) (\<lambda>message'.
          bnd (dispatchEvent this (new_Event ''sent'' (SentData
                 \<lparr>sd_source = source envelope,
                  sd_sourceDevice = sourceDevice envelope,
                  sd_timestamp = sent_timestamp snt,
                  sd_destination = destination snt,
                  sd_message = message',
                  sd_expirationStartTimestamp = expire snt\<rparr>))) (\<lambda>ev.
            ok ()))))"

definition handleDataMessage ::
  "'w collab \<Rightarrow> 'w MessageReceiver \<Rightarrow> DataMessage \<Rightarrow> Envelope \<Rightarrow> (unit, 'w) prog" where
  "handleDataMessage c this message envelope =
     bnd (if flag_set (flags message) (END_SESSION c)
          then handleEndSession c (source envelope) else ok ()) (\<lambda>u.
     bnd (processDecrypted c message (source envelope)) (\<lambda>message'.
     bnd (dispatchEvent this (new_Event ''message'' (MessageData
            \<lparr>md_timestamp = timestamp envelope,
             md_source = source envelope,
             md_sourceDevice = sourceDevice envelope,
             md_message = message',
             md_keyChange = keyChange envelope\<rparr>))) (\<lambda>ev.
       ok ())))"

fun handleRead :: "'w MessageReceiver \<Rightarrow> Read list \<Rightarrow> Envelope \<Rightarrow> (unit, 'w) prog" where
  "handleRead this [] envelope = ok ()"
| "handleRead this (x # xs) envelope =
     bnd (dispatchEvent this (new_Event ''read'' (ReadData (timestamp envelope)
            \<lparr>rd_timestamp = read_timestamp x,
             rd_sender = sender x,
             rd_source = source envelope,
             rd_sourceDevice = sourceDevice envelope\<rparr>))) (\<lambda>ev.
       handleRead this xs envelope)"

definition handleBlocked :: "bytes \<Rightarrow> (unit, 'w) prog" where
  "handleBlocked blk = raise (Error ''UNSUPPORTRED'')"

text \<open>\<^verbatim>\<open>message.read && message.read.length\<close> holds when the entries below are not empty.\<close>

definition read_entries :: "SyncMessage \<Rightarrow> Read list" where
  "read_entries message = (case read message of None \<Rightarrow> [] | Some xs \<Rightarrow> xs)"

text \<open>
  \<^verbatim>\<open>handleSyncMessage(message, envelope, content)\<close>. Device ids are numbers, on which
  the loose \<^verbatim>\<open>==\<close> of the second guard is equality; \<^verbatim>\<open>content\<close> is only logged.
\<close>

definition handleSyncMessage ::
  "'w collab \<Rightarrow> 'w MessageReceiver \<Rightarrow> SyncMessage \<Rightarrow> Envelope \<Rightarrow> (unit, 'w) prog" where
  "handleSyncMessage c this message envelope =
     (if source envelope \<noteq> addr this then
        raise (ReferenceError ''Received sync message from another addr'')
      else if sourceDevice envelope = deviceId this then
        raise (ReferenceError ''Received sync message from our own device'')
      else (case sent message of
              Some snt \<Rightarrow> handleSentMessage c this snt envelope
            | None \<Rightarrow>
               (if read_entries message \<noteq> [] then handleRead this (read_entries message) envelope
                else if contacts message \<noteq> None then
                  raise (TypeError ''Deprecated contact sync message'')
                else if groups message \<noteq> None then
                  raise (TypeError ''Deprecated group sync message'')
                else (case blocked message of
                        Some blk \<Rightarrow> handleBlocked blk
                      | None \<Rightarrow>
                         (if request message \<noteq> None then
                            raise (TypeError ''Deprecated group request sync message'')
                          else raise (TypeError ''Empty SyncMessage''))))))"

text \<open>
  The two decrypting handlers. \<^verbatim>\<open>handleEnvelope\<close> picks them only when the field they
  decrypt is present; called on an envelope without it, the session cipher is handed
  \<^verbatim>\<open>undefined\<close>, which is taken to fail with a \<^verbatim>\<open>TypeError\<close>.
\<close>

definition handleLegacyMessage ::
  "'w collab \<Rightarrow> 'w MessageReceiver \<Rightarrow> Envelope \<Rightarrow> (unit, 'w) prog" where
  "handleLegacyMessage c this envelope =
     (case legacyMessage envelope of
        None \<Rightarrow> raise (TypeError ''ciphertext is undefined'')
      | Some ciphertext \<Rightarrow>
          bnd (decrypt c envelope ciphertext) (\<lambda>d.
          bnd (lift (DataMessage_decode c d)) (\<lambda>message.
            handleDataMessage c this message envelope)))"

definition handleContentMessage ::
  "'w collab \<Rightarrow> 'w MessageReceiver \<Rightarrow> Envelope \<Rightarrow> (unit, 'w) prog" where
  "handleContentMessage c this envelope =
     (case content envelope of
        None \<Rightarrow> raise (TypeError ''ciphertext is undefined'')
      | Some ciphertext \<Rightarrow>
          bnd (decrypt c envelope ciphertext) (\<lambda>d.
          bnd (lift (Content_decode c d)) (\<lambda>cnt.
            case syncMessage cnt of
              Some sm \<Rightarrow> handleSyncMessage c this sm envelope
            | None \<Rightarrow>
               (case dataMessage cnt of
                  Some dm \<Rightarrow> handleDataMessage c this dm envelope
                | None \<Rightarrow>
                    raise (TypeError ''Got content message with no dataMessage or syncMessage'')))))"

text \<open>The first part of \<^verbatim>\<open>handleEnvelope\<close>: which method becomes \<^verbatim>\<open>handler\<close>.\<close>

definition select_handler :: "Envelope \<Rightarrow> error + handler" where
  "select_handler envelope =
     (if env_type envelope = RECEIPT then Inr DeliveryReceiptHandler
      else if content envelope \<noteq> None then Inr ContentMessageHandler
      else if legacyMessage envelope \<noteq> None then Inr LegacyMessageHandler
      else Inl (Error ''Received message with no content and no legacyMessage''))"

text \<open>\<^verbatim>\<open>handler.call(this, envelope)\<close>, recorded with the \<^verbatim>\<open>reentrant\<close> flag of the caller.\<close>

definition call_handler ::
  "'w collab \<Rightarrow> 'w MessageReceiver \<Rightarrow> handler \<Rightarrow> Envelope \<Rightarrow> bool \<Rightarrow> (unit, 'w) prog" where
  "call_handler c this h envelope reentrant =
     bnd (log (CallHandler h reentrant)) (\<lambda>u.
       case h of
         DeliveryReceiptHandler \<Rightarrow> handleDeliveryReceipt this envelope
       | ContentMessageHandler \<Rightarrow> handleContentMessage c this envelope
       | LegacyMessageHandler \<Rightarrow> handleLegacyMessage c this envelope)"

definition keychange_event :: "error \<Rightarrow> Event" where
  "keychange_event e =
     (case e of
        IncomingIdentityKeyError a ct k \<Rightarrow> new_Event ''keychange'' (KeychangeData a k)
      | _ \<Rightarrow> new_Event ''keychange'' NoData)"

text \<open>
  \<^verbatim>\<open>handleEnvelope(envelope, reentrant)\<close>. The recursive call is made with
  \<^verbatim>\<open>reentrant = true\<close> from a call with \<^verbatim>\<open>reentrant\<close> falsy, after
  \<^verbatim>\<open>envelope.keyChange = true\<close>.
\<close>

function handleEnvelope ::
  "'w collab \<Rightarrow> 'w MessageReceiver \<Rightarrow> Envelope \<Rightarrow> bool \<Rightarrow> (unit, 'w) prog" where
  "handleEnvelope c this envelope reentrant =
     bnd (lift (select_handler envelope)) (\<lambda>h.
       try_catch (call_handler c this h envelope reentrant)
         (\<lambda>e. if err_name e = ''MessageCounterError'' then ok ()
               else if instanceof_IncomingIdentityKeyError e \<and> \<not> reentrant then
                 bnd (dispatchEvent this (keychange_event e)) (\<lambda>ev.
                   if accepted ev
                   then handleEnvelope c this (envelope\<lparr>keyChange := Some True\<rparr>) True
                   else ok ())
               else if instanceof_TextSecureError c e then ok ()
               else bnd (dispatchEvent this (new_Event ''error'' (ErrorData e (Some envelope))))
                      (\<lambda>ev. raise e)))"
  by pat_completeness auto
termination
  by (relation "measure (\<lambda>(c, this, envelope, reentrant). if reentrant then 0 else 1)") auto

declare handleEnvelope.simps [simp del]

text \<open>\<^verbatim>\<open>handleRequest(request)\<close>; \<^verbatim>\<open>handleEnvelope(envelope)\<close> leaves \<^verbatim>\<open>reentrant\<close> undefined.\<close>

definition handleRequest :: "'w collab \<Rightarrow> 'w MessageReceiver \<Rightarrow> Request \<Rightarrow> (unit, 'w) prog" where
  "handleRequest c this req =
     (if path req \<noteq> ''/api/v1/message'' \<or> verb req \<noteq> ''PUT'' then
        raise (Error ''Invalid WebSocket resource received'')
      else
        bnd (try_catch
               (bnd (lift (decryptWebsocketMessage c (body req) (signalingKey this))) (\<lambda>d.
                  lift (Envelope_decode c d)))
               (\<lambda>e. bnd (respond 500 ''Bad encrypted websocket message'') (\<lambda>u.
                     bnd (dispatchEvent this (new_Event ''error'' (ErrorData e None))) (\<lambda>ev.
                       raise e))))
          (\<lambda>envelope.
             try_finally (handleEnvelope c this envelope False) (respond 200 ''OK'')))"

section \<open>Notions used in the statements\<close>

text \<open>
  What a program leaves unchanged. \<open>keeps f m\<close>: running \<open>m\<close> never changes the
  observation \<open>f\<close> of the state. \<open>world_free\<close>, \<open>ignores_dispatch\<close> and
  \<open>ignores_calls\<close> describe an observation that does not look at the world, at the
  recorded \<^verbatim>\<open>dispatchEvent\<close> calls, at the recorded handler calls.
\<close>

definition keeps :: "('w state \<Rightarrow> 'b) \<Rightarrow> ('a, 'w) prog \<Rightarrow> bool" where
  "keeps f m \<longleftrightarrow> (\<forall>s. f (snd (m s)) = f s)"

definition world_free :: "('w state \<Rightarrow> 'b) \<Rightarrow> bool" where
  "world_free f \<longleftrightarrow> (\<forall>s w. f (s\<lparr>world := w\<rparr>) = f s)"

definition ignores_dispatch :: "('w state \<Rightarrow> 'b) \<Rightarrow> bool" where
  "ignores_dispatch f \<longleftrightarrow> (\<forall>s ev. f (s\<lparr>trace := trace s @ [DispatchEvent ev]\<rparr>) = f s)"

definition ignores_calls :: "('w state \<Rightarrow> 'b) \<Rightarrow> bool" where
  "ignores_calls f \<longleftrightarrow> (\<forall>s h re. f (s\<lparr>trace := trace s @ [CallHandler h re]\<rparr>) = f s)"

text \<open>
  \<open>no_mce m\<close>: \<open>m\<close> never fails with an error named \<^verbatim>\<open>MessageCounterError\<close>.
  \<open>quiet m\<close>: when \<open>m\<close> fails with such an error, it has recorded no call.
  \<open>bumps m\<close>: \<open>m\<close> makes at most one handler call with \<^verbatim>\<open>reentrant = true\<close>.
\<close>

definition no_mce :: "('a, 'w) prog \<Rightarrow> bool" where
  "no_mce m \<longleftrightarrow> (\<forall>s e s'. m s = (Inl e, s') \<longrightarrow> err_name e \<noteq> ''MessageCounterError'')"

definition quiet :: "('a, 'w) prog \<Rightarrow> bool" where
  "quiet m \<longleftrightarrow>
     (\<forall>s e s'. m s = (Inl e, s') \<and> err_name e = ''MessageCounterError'' \<longrightarrow> trace s' = trace s)"

definition bumps :: "('a, 'w) prog \<Rightarrow> bool" where
  "bumps m \<longleftrightarrow> (\<forall>s. reentries (snd (m s)) \<le> reentries s + 1)"

text \<open>
  \<open>listener_list\<close> is \<^verbatim>\<open>this._listeners[ty]\<close> where it can be read, \<open>registered\<close> the
  callbacks currently registered for an event type, \<open>can_dispatch\<close> the condition under
  which the loop of \<^verbatim>\<open>dispatchEvent\<close> has something to iterate (or is not reached).
\<close>

definition listener_list :: "('w, 'z) EventTarget_scheme \<Rightarrow> string \<Rightarrow> 'w listener list option" where
  "listener_list this ty = (case listeners this of None \<Rightarrow> None | Some table \<Rightarrow> table ty)"

definition registered :: "('w, 'z) EventTarget_scheme \<Rightarrow> string \<Rightarrow> 'w listener list" where
  "registered this ty =
     (case listeners this of
        None \<Rightarrow> []
      | Some table \<Rightarrow> (case table ty of None \<Rightarrow> [] | Some callbacks \<Rightarrow> callbacks))"

definition can_dispatch :: "('w, 'z) EventTarget_scheme \<Rightarrow> string \<Rightarrow> bool" where
  "can_dispatch this ty = (case listeners this of None \<Rightarrow> True | Some table \<Rightarrow> table ty \<noteq> None)"

text \<open>
  The decoding step of \<^verbatim>\<open>handleRequest\<close>: signalling-key decryption of the body, then
  the envelope decoder.
\<close>

definition decode_frame :: "'w collab \<Rightarrow> 'w MessageReceiver \<Rightarrow> Request \<Rightarrow> error + Envelope" where
  "decode_frame c this req =
     (case decryptWebsocketMessage c (body req) (signalingKey this) of
        Inl e \<Rightarrow> Inl e
      | Inr d \<Rightarrow> Envelope_decode c d)"

subsection \<open>Concrete inputs\<close>

text \<open>
  Collaborators, a receiver, listeners and messages on which the functions are run. The
  world carries no information here.
\<close>

definition noop_listener :: "unit listener" where
  "noop_listener = \<lparr>cb_ref = 1, cb_call = (\<lambda>ev w. (None, ev, w))\<rparr>"

definition emptied_target :: "unit EventTarget" where
  "emptied_target = \<lparr>listeners = Some [''message'' \<mapsto> []]\<rparr>"

definition message_target :: "unit EventTarget" where
  "message_target = \<lparr>listeners = Some [''message'' \<mapsto> [noop_listener]]\<rparr>"

definition example_message :: DataMessage where
  "example_message =
     \<lparr>msg_body = Some ''hi'', flags = None, expireTimer = None, msg_group = None,
      attachments = None\<rparr>"

definition example_envelope :: Envelope where
  "example_envelope =
     \<lparr>env_type = CIPHERTEXT, source = ''+15550001111'', sourceDevice = 1, timestamp = 1000,
      content = Some [0x01, 0x80], legacyMessage = None, keyChange = None\<rparr>"

definition own_envelope :: "nat \<Rightarrow> Envelope" where
  "own_envelope d = example_envelope\<lparr>source := ''+15550009999'', sourceDevice := d\<rparr>"

definition prekey_envelope :: Envelope where
  "prekey_envelope = example_envelope\<lparr>env_type := PREKEY_BUNDLE\<rparr>"

definition example_collab :: "unit collab" where
  "example_collab =
     \<lparr>decryptWebsocketMessage = (\<lambda>b k. if b = [] then Inl (Error ''Bad MAC'') else Inr b),
      Envelope_decode = (\<lambda>d. Inr example_envelope),
      Content_decode = (\<lambda>d. Inr \<lparr>syncMessage = None, dataMessage = Some example_message\<rparr>),
      DataMessage_decode = (\<lambda>d. Inr example_message),
      session_decryptWhisperMessage = (\<lambda>a ct w. (Inr ct, w)),
      session_decryptPreKeyWhisperMessage =
        (\<lambda>a ct w. (Inl (JsError ''Error'' ''Unknown identity key'' (Some [0x05])), w)),
      closeOpenSessionForDevice = (\<lambda>a w. (Inr (), w)),
      getDeviceIds = (\<lambda>a w. (Inr [1], w)),
      getAttachment = (\<lambda>i w. (Inr [], w)),
      decryptAttachment = (\<lambda>e k. Inr e),
      END_SESSION = 1,
      identityKeyError_is_TextSecureError = True\<rparr>"

definition replay_collab :: "unit collab" where
  "replay_collab = example_collab\<lparr>session_decryptWhisperMessage :=
     (\<lambda>a ct w. (Inl (JsError ''MessageCounterError'' ''Key used already or never filled'' None), w))\<rparr>"

definition example_receiver :: "unit MessageReceiver" where
  "example_receiver =
     \<lparr>listeners = None, addr = ''+15550009999'', deviceId = 1, signalingKey = [0x2a]\<rparr>"

definition listening_receiver :: "unit MessageReceiver" where
  "listening_receiver = example_receiver\<lparr>listeners := Some [''message'' \<mapsto> [noop_listener]]\<rparr>"

text \<open>
  A session store that reports an unknown identity key at the first attempt and a used
  message counter at the next one (the world is whether the first attempt was made), and
  a receiver whose only listener accepts every key change.
\<close>

definition accepting_listener :: "bool listener" where
  "accepting_listener = \<lparr>cb_ref = 2, cb_call = (\<lambda>ev w. (None, ev\<lparr>accepted := True\<rparr>, w))\<rparr>"

definition accepting_receiver :: "bool MessageReceiver" where
  "accepting_receiver =
     \<lparr>listeners = Some [''keychange'' \<mapsto> [accepting_listener]], addr = ''+15550009999'',
      deviceId = 1, signalingKey = [0x2a]\<rparr>"

definition rekey_collab :: "bool collab" where
  "rekey_collab =
     \<lparr>decryptWebsocketMessage = (\<lambda>b k. if b = [] then Inl (Error ''Bad MAC'') else Inr b),
      Envelope_decode = (\<lambda>d. Inr prekey_envelope),
      Content_decode = (\<lambda>d. Inr \<lparr>syncMessage = None, dataMessage = Some example_message\<rparr>),
      DataMessage_decode = (\<lambda>d. Inr example_message),
      session_decryptWhisperMessage = (\<lambda>a ct w. (Inr ct, w)),
      session_decryptPreKeyWhisperMessage =
        (\<lambda>a ct w.
           if w then (Inl (JsError ''MessageCounterError'' ''Key used already or never filled''
                             None), w)
           else (Inl (JsError ''Error'' ''Unknown identity key'' (Some [0x05])), True)),
      closeOpenSessionForDevice = (\<lambda>a w. (Inr (), w)),
      getDeviceIds = (\<lambda>a w. (Inr [1], w)),
      getAttachment = (\<lambda>i w. (Inr [], w)),
      decryptAttachment = (\<lambda>e k. Inr e),
      END_SESSION = 1,
      identityKeyError_is_TextSecureError = True\<rparr>"

definition example_keychange :: Event where
  "example_keychange = new_Event ''keychange'' (KeychangeData (''+15550001111'', 1) (Some [0x05]))"

definition initial_state :: "unit state" where
  "initial_state = \<lparr>world = (), trace = []\<rparr>"

definition blocked_and_contacts :: SyncMessage where
  "blocked_and_contacts =
     \<lparr>sent = None, read = None, contacts = Some [], groups = None, blocked = Some [],
      request = None\<rparr>"

definition blocked_only :: SyncMessage where
  "blocked_only =
     \<lparr>sent = None, read = None, contacts = None, groups = None, blocked = Some [],
      request = None\<rparr>"

definition get_request :: Request where
  "get_request = \<lparr>verb = ''GET'', path = ''/api/v1/message'', body = [0x01]\<rparr>"

definition keepalive_request :: Request where
  "keepalive_request = \<lparr>verb = ''PUT'', path = ''/v1/keepalive'', body = []\<rparr>"

definition good_request :: Request where
  "good_request = \<lparr>verb = ''PUT'', path = ''/api/v1/message'', body = [0x01]\<rparr>"

definition broken_request :: Request where
  "broken_request = \<lparr>verb = ''PUT'', path = ''/api/v1/message'', body = []\<rparr>"

section \<open>Padding removal: what \<open>unpad\<close> returns\<close>

lemma unpad_from_skip_zeros:
  "j \<le> k \<Longrightarrow> unpad_from (p @ b # replicate k 0x00) (Suc (length p) + j)
     = unpad_from (p @ b # replicate k 0x00) (Suc (length p))"
  by (induction j) (simp_all add: nth_append)

lemma unpad_tail:
  "unpad (p @ b # replicate k 0x00) =
     (if b = 0x80 then Inr p else if b \<noteq> 0x00 then Inl (Error ''Invalid padding'')
      else unpad_from (p @ b # replicate k 0x00) (length p))"
  using unpad_from_skip_zeros [of k k p b] by (simp add: unpad_def)

lemma unpad_from_all_zero:
  "i \<le> k \<Longrightarrow> unpad_from (replicate k 0x00) i = Inr (replicate k 0x00)"
  by (induction i) simp_all

lemma unpad_all_zero: "unpad (replicate k 0x00) = Inr (replicate k 0x00)"
  by (simp add: unpad_def unpad_from_all_zero)

lemma trailer_decomp:
  assumes "dropWhile (\<lambda>x. x = 0x00) (rev buf) = b # rest"
  shows "buf = rev rest @ b # replicate (length (takeWhile (\<lambda>x. x = 0x00) (rev buf))) (0x00::byte)"
proof -
  let ?z = "takeWhile (\<lambda>x. x = 0x00) (rev buf)"
  have z: "?z = replicate (length ?z) (0x00::byte)"
    by (rule replicate_length_same [symmetric]) (auto dest: set_takeWhileD)
  have "rev buf = ?z @ b # rest"
    using assms takeWhile_dropWhile_id [of "\<lambda>x. x = 0x00" "rev buf"] by simp
  then have "buf = rev (?z @ b # rest)" by (metis rev_rev_ident)
  also have "\<dots> = rev rest @ b # rev ?z" by simp
  also have "rev ?z = replicate (length ?z) (0x00::byte)"
    using z by (metis rev_replicate)
  finally show ?thesis .
qed

text \<open>
  Claim C4. The claim: every buffer whose bytes are all \<open>0x00\<close>, the non-empty ones
  included, is unpadded to the empty byte string. The loop finds no \<open>0x80\<close> in such a
  buffer and falls through to \<^verbatim>\<open>return buf; // empty\<close>, which returns the buffer itself:
  on the one-byte buffer \<open>00\<close> the result is that byte, not the empty string.
\<close>

theorem unpad_zero_byte_not_empty: "unpad [0x00] = Inr [0x00] \<and> unpad [0x00] \<noteq> Inr []"
  by (simp add: unpad_def)

text \<open>
  Claim C5. For every plaintext and every \<open>k\<close>, unpadding the plaintext followed by
  \<open>0x80\<close> and \<open>k\<close> zero bytes gives the plaintext back; and a buffer whose first
  non-zero byte from the tail exists and is not \<open>0x80\<close> is rejected with the padding
  error. Scanning from the tail is \<open>dropWhile\<close> over the reversed buffer.
\<close>

theorem unpad_roundtrip:
  "unpad (plaintext @ 0x80 # replicate k 0x00) = Inr plaintext \<and>
   (dropWhile (\<lambda>x. x = 0x00) (rev buf) = b # rest \<and> b \<noteq> 0x80
      \<longrightarrow> unpad buf = Inl PaddingError)"
proof (intro conjI impI)
  show "unpad (plaintext @ 0x80 # replicate k 0x00) = Inr plaintext"
    by (simp add: unpad_tail)
next
  assume a: "dropWhile (\<lambda>x. x = 0x00) (rev buf) = b # rest \<and> b \<noteq> 0x80"
  then have "b \<noteq> 0x00"
    by (metis (mono_tags, lifting) dropWhile_eq_Cons_conv)
  moreover have "unpad buf =
      unpad (rev rest @ b # replicate (length (takeWhile (\<lambda>x. x = 0x00) (rev buf))) 0x00)"
    using trailer_decomp [of buf b rest] a by simp
  ultimately show "unpad buf = Inl PaddingError"
    using a by (simp add: unpad_tail PaddingError_def)
qed

theorem unpad_roundtrip_witness:
  "unpad ([0x68, 0x69] @ 0x80 # replicate 3 0x00) = Inr [0x68, 0x69] \<and>
   dropWhile (\<lambda>x. x = 0x00) (rev [0x68, 0x81, 0x00, 0x00 :: byte]) = 0x81 # [0x68] \<and>
   (0x81 :: byte) \<noteq> 0x80 \<and>
   unpad [0x68, 0x81, 0x00, 0x00] = Inl PaddingError"
  using unpad_roundtrip [of "[0x68, 0x69]" 3 "[0x68, 0x81, 0x00, 0x00]" "0x81" "[0x68]"]
  by simp

section \<open>What a program leaves unchanged\<close>

lemma keepsD: "keeps f m \<Longrightarrow> m s = (r, s') \<Longrightarrow> f s' = f s"
  by (auto simp: keeps_def dest: spec [where x = s])

lemma world_free_trace: "world_free trace"
  by (simp add: world_free_def)

lemma world_free_responses: "world_free responses"
  by (simp add: world_free_def responses_def)

lemma world_free_reentries: "world_free reentries"
  by (simp add: world_free_def reentries_def)

lemma ignores_dispatch_responses: "ignores_dispatch responses"
  by (simp add: ignores_dispatch_def responses_def)

lemma ignores_dispatch_reentries: "ignores_dispatch reentries"
  by (simp add: ignores_dispatch_def reentries_def)

lemma ignores_calls_responses: "ignores_calls responses"
  by (simp add: ignores_calls_def responses_def)

lemma keeps_ok: "keeps f (ok x)"
  by (simp add: keeps_def ok_def)

lemma keeps_raise: "keeps f (raise e)"
  by (simp add: keeps_def raise_def)

lemma keeps_lift: "keeps f (lift r)"
  by (simp add: keeps_def lift_def)

lemma keeps_ext: "world_free f \<Longrightarrow> keeps f (ext g)"
  by (simp add: keeps_def ext_def world_free_def split: prod.splits)

lemma keeps_bnd: "keeps f m \<Longrightarrow> (\<And>x. keeps f (k x)) \<Longrightarrow> keeps f (bnd m k)"
  unfolding keeps_def bnd_def
  by (auto split: prod.splits sum.splits) (metis snd_conv)+

lemma keeps_try_catch: "keeps f m \<Longrightarrow> (\<And>e. keeps f (h e)) \<Longrightarrow> keeps f (try_catch m h)"
  unfolding keeps_def try_catch_def
  by (auto split: prod.splits sum.splits) (metis snd_conv)+

lemma keeps_if: "keeps f a \<Longrightarrow> keeps f b \<Longrightarrow> keeps f (if P then a else b)"
  by simp

lemma keeps_case_option:
  "keeps f a \<Longrightarrow> (\<And>x. keeps f (b x)) \<Longrightarrow> keeps f (case v of None \<Rightarrow> a | Some x \<Rightarrow> b x)"
  by (cases v) simp_all

lemma keeps_promise_all: "(\<And>m. m \<in> set ms \<Longrightarrow> keeps f m) \<Longrightarrow> keeps f (promise_all ms)"
proof (induction ms)
  case Nil
  show ?case by (simp add: keeps_def)
next
  case (Cons m ms)
  have 1: "keeps f m" and 2: "keeps f (promise_all ms)"
    using Cons by simp_all
  show ?case
    unfolding keeps_def
  proof
    fix s
    obtain r s1 where a: "m s = (r, s1)" by (cases "m s")
    obtain rs s2 where b: "promise_all ms s1 = (rs, s2)" by (cases "promise_all ms s1")
    have "f s1 = f s" using keepsD [OF 1 a] .
    moreover have "f s2 = f s1" using keepsD [OF 2 b] .
    ultimately show "f (snd (promise_all (m # ms) s)) = f s"
      using a b by (simp split: sum.splits)
  qed
qed

lemma keeps_call_listeners:
  "world_free f \<Longrightarrow> keeps f (call_listeners cbs ev :: (Event, 'w) prog)"
proof (induction cbs arbitrary: ev)
  case Nil
  show ?case by (simp add: keeps_def)
next
  case (Cons cb cbs)
  show ?case
    unfolding keeps_def
  proof
    fix s :: "'w state"
    obtain t ev' w' where a: "cb_call cb ev (world s) = (t, ev', w')"
      by (cases "cb_call cb ev (world s)")
    have "f (snd (call_listeners cbs ev' (s\<lparr>world := w'\<rparr>))) = f (s\<lparr>world := w'\<rparr>)"
      using Cons by (simp add: keeps_def)
    then show "f (snd (call_listeners (cb # cbs) ev s)) = f s"
      using a Cons.prems by (simp add: world_free_def)
  qed
qed

lemma bnd_cases:
  assumes "bnd m f s = (r, s')"
  obtains (fails) e where "m s = (Inl e, s')" and "r = Inl e"
    | (continues) x s1 where "m s = (Inr x, s1)" and "f x s1 = (r, s')"
  using assms by (auto simp: bnd_def split: prod.splits sum.splits)

section \<open>The event target: dispatching\<close>

lemma call_listeners_returns: "\<exists>ev' s'. call_listeners cbs ev s = (Inr ev', s')"
proof (induction cbs arbitrary: ev s)
  case Nil
  show ?case by simp
next
  case (Cons cb cbs)
  show ?case by (cases "cb_call cb ev (world s)") (simp add: Cons)
qed

lemma dispatchEvent_trace:
  "trace (snd (dispatchEvent this ev s)) = trace s @ [DispatchEvent ev]"
proof -
  let ?s1 = "s\<lparr>trace := trace s @ [DispatchEvent ev]\<rparr>"
  have k: "trace (snd (call_listeners cbs ev ?s1)) = trace ?s1" for cbs
    by (rule keeps_call_listeners [OF world_free_trace, unfolded keeps_def, rule_format])
  show ?thesis
    using k by (simp add: dispatchEvent_def bnd_def log_def ok_def raise_def split: option.splits)
qed

lemma dispatchEvent_cases:
  "(\<exists>s'. dispatchEvent this ev s = (Inl NotIterable, s') \<and> \<not> can_dispatch this (ev_type ev)) \<or>
   (\<exists>ev' s'. dispatchEvent this ev s = (Inr ev', s') \<and> can_dispatch this (ev_type ev))"
proof (cases "listeners this")
  case None
  then show ?thesis
    by (simp add: dispatchEvent_def bnd_def log_def ok_def can_dispatch_def)
next
  case (Some table)
  show ?thesis
  proof (cases "table (ev_type ev)")
    case None
    with Some show ?thesis
      by (simp add: dispatchEvent_def bnd_def log_def raise_def can_dispatch_def)
  next
    case (Some cbs)
    obtain ev' s' where
      "call_listeners cbs ev (s\<lparr>trace := trace s @ [DispatchEvent ev]\<rparr>) = (Inr ev', s')"
      using call_listeners_returns by blast
    with Some \<open>listeners this = Some table\<close> show ?thesis
      by (simp add: dispatchEvent_def bnd_def log_def can_dispatch_def)
  qed
qed

lemma dispatchEvent_fails: "dispatchEvent this ev s = (Inl e, s') \<Longrightarrow> e = NotIterable"
  using dispatchEvent_cases [of this ev s] by auto

lemma err_name_NotIterable: "err_name NotIterable = ''TypeError''"
  by (simp add: NotIterable_def TypeError_def)

lemma keeps_dispatchEvent:
  assumes "world_free f" and "ignores_dispatch f"
  shows "keeps f (dispatchEvent this ev)"
  unfolding keeps_def
proof
  fix s :: "'a state"
  let ?s1 = "s\<lparr>trace := trace s @ [DispatchEvent ev]\<rparr>"
  have 1: "f ?s1 = f s" using assms(2) by (simp add: ignores_dispatch_def)
  have k: "f (snd (call_listeners cbs ev ?s1)) = f ?s1" for cbs
    by (rule keeps_call_listeners [OF assms(1), unfolded keeps_def, rule_format])
  show "f (snd (dispatchEvent this ev s)) = f s"
    using 1 k by (simp add: dispatchEvent_def bnd_def log_def ok_def raise_def split: option.splits)
qed

lemma can_dispatch_iff:
  "can_dispatch this ty \<longleftrightarrow> listeners this = None \<or> listener_list this ty \<noteq> None"
  by (auto simp: can_dispatch_def listener_list_def split: option.splits)

subsection \<open>Histories of registrations\<close>

lemma register_table:
  "register r this = Inr this' \<Longrightarrow> is_Add r \<or> listeners this \<noteq> None \<Longrightarrow> listeners this' \<noteq> None"
  by (cases r)
    (auto simp: addEventListener_def removeEventListener_def Let_def split: option.splits)

lemma register_all_table:
  "register_all rs this = Inr this' \<Longrightarrow> (\<exists>r\<in>set rs. is_Add r) \<or> listeners this \<noteq> None
     \<Longrightarrow> listeners this' \<noteq> None"
proof (induction rs arbitrary: this)
  case Nil
  then show ?case by simp
next
  case (Cons r rs)
  from Cons.prems(1) obtain t1 where 1: "register r this = Inr t1"
    and 2: "register_all rs t1 = Inr this'"
    by (auto split: sum.splits)
  show ?case
  proof (cases "is_Add r \<or> listeners this \<noteq> None")
    case True
    then have "listeners t1 \<noteq> None" using register_table [OF 1] by blast
    then show ?thesis using Cons.IH [OF 2] by blast
  next
    case False
    then have "\<exists>r\<in>set rs. is_Add r" using Cons.prems(2) by auto
    then show ?thesis using Cons.IH [OF 2] by blast
  qed
qed

lemma register_no_table:
  "register r this = Inr this' \<Longrightarrow> \<not> is_Add r \<Longrightarrow> listeners this = None \<Longrightarrow> False"
  by (cases r) (auto simp: removeEventListener_def)

lemma register_all_no_table:
  "register_all rs this = Inr this' \<Longrightarrow> \<not> (\<exists>r\<in>set rs. is_Add r) \<Longrightarrow> listeners this = None
     \<Longrightarrow> this' = this"
proof (cases rs)
  case Nil
  then show "register_all rs this = Inr this' \<Longrightarrow> this' = this" by simp
next
  case (Cons r rs')
  assume a: "register_all rs this = Inr this'" and b: "\<not> (\<exists>r\<in>set rs. is_Add r)"
    and c: "listeners this = None"
  from a Cons obtain t1 where "register r this = Inr t1" by (auto split: sum.splits)
  moreover have "\<not> is_Add r" using b Cons by simp
  ultimately show "this' = this" using register_no_table c by blast
qed

lemma register_entry_none:
  "register r this = Inr this' \<Longrightarrow> \<not> adds ty r \<Longrightarrow> listener_list this ty = None
     \<Longrightarrow> listener_list this' ty = None"
  by (cases r)
    (auto simp: addEventListener_def removeEventListener_def listener_list_def Let_def
          split: option.splits)

lemma register_all_entry_none:
  "register_all rs this = Inr this' \<Longrightarrow> \<not> (\<exists>r\<in>set rs. adds ty r) \<Longrightarrow> listener_list this ty = None
     \<Longrightarrow> listener_list this' ty = None"
proof (induction rs arbitrary: this)
  case Nil
  then show ?case by simp
next
  case (Cons r rs)
  from Cons.prems(1) obtain t1 where 1: "register r this = Inr t1"
    and 2: "register_all rs t1 = Inr this'"
    by (auto split: sum.splits)
  have "listener_list t1 ty = None"
    using register_entry_none [OF 1] Cons.prems by simp
  then show ?case using Cons.IH [OF 2] Cons.prems(2) by simp
qed

lemma register_entry_some:
  "register r this = Inr this' \<Longrightarrow> adds ty r \<or> listener_list this ty \<noteq> None
     \<Longrightarrow> listener_list this' ty \<noteq> None"
  by (cases r)
    (auto simp: addEventListener_def removeEventListener_def listener_list_def Let_def
          split: option.splits)

lemma register_all_entry_some:
  "register_all rs this = Inr this' \<Longrightarrow> (\<exists>r\<in>set rs. adds ty r) \<or> listener_list this ty \<noteq> None
     \<Longrightarrow> listener_list this' ty \<noteq> None"
proof (induction rs arbitrary: this)
  case Nil
  then show ?case by simp
next
  case (Cons r rs)
  from Cons.prems(1) obtain t1 where 1: "register r this = Inr t1"
    and 2: "register_all rs t1 = Inr this'"
    by (auto split: sum.splits)
  show ?case
  proof (cases "adds ty r \<or> listener_list this ty \<noteq> None")
    case True
    then have "listener_list t1 ty \<noteq> None" using register_entry_some [OF 1] by blast
    then show ?thesis using Cons.IH [OF 2] by blast
  next
    case False
    then have "\<exists>r\<in>set rs. adds ty r" using Cons.prems(2) by auto
    then show ?thesis using Cons.IH [OF 2] by blast
  qed
qed

text \<open>
  Claim C10, as stated: on every target on which at least one listener has been
  registered, dispatching an event whose type has no registered listeners throws a
  \<^verbatim>\<open>TypeError\<close>. It fails after a removal: once the only \<^verbatim>\<open>message\<close> listener has
  been removed again, \<^verbatim>\<open>_listeners.message\<close> is the empty array, the type has no
  registered listener, and dispatching a \<^verbatim>\<open>message\<close> event iterates nothing and returns.
\<close>

theorem dispatchEvent_after_removal:
  "register_all [Add ''message'' noop_listener, Remove ''message'' noop_listener] new_EventTarget
     = Inr emptied_target \<and>
   registered emptied_target ''message'' = [] \<and>
   dispatchEvent emptied_target (new_Event ''message'' NoData) initial_state
     = (Inr (new_Event ''message'' NoData),
        initial_state\<lparr>trace := [DispatchEvent (new_Event ''message'' NoData)]\<rparr>)"
  by (simp add: new_EventTarget_def emptied_target_def addEventListener_def
        removeEventListener_def registered_def dispatchEvent_def bnd_def log_def
        new_Event_def initial_state_def noop_listener_def)

text \<open>
  Claim C10, amended. For a target reached from a fresh one by registrations and removals:
  if a listener was registered at some point and none ever for the type of the event,
  \<^verbatim>\<open>dispatchEvent\<close> throws the \<^verbatim>\<open>TypeError\<close> of iterating \<^verbatim>\<open>undefined\<close>; if a listener
  was ever registered for that type, it returns normally, whether or not the listener is
  still there; if no listener was ever registered, it returns silently, calling nothing.
\<close>

theorem dispatchEvent_unregistered_type:
  assumes "register_all history new_EventTarget = Inr this"
  shows
   "((\<exists>r\<in>set history. is_Add r) \<and> \<not> (\<exists>r\<in>set history. adds (ev_type ev) r) \<longrightarrow>
       fst (dispatchEvent this ev s) = Inl NotIterable) \<and>
    ((\<exists>r\<in>set history. adds (ev_type ev) r) \<longrightarrow>
       (\<exists>ev'. fst (dispatchEvent this ev s) = Inr ev')) \<and>
    (\<not> (\<exists>r\<in>set history. is_Add r) \<longrightarrow>
       dispatchEvent this ev s = (Inr ev, s\<lparr>trace := trace s @ [DispatchEvent ev]\<rparr>))"
proof (intro conjI impI)
  assume a: "(\<exists>r\<in>set history. is_Add r) \<and> \<not> (\<exists>r\<in>set history. adds (ev_type ev) r)"
  have "listeners this \<noteq> None"
    using register_all_table [OF assms] a by blast
  moreover have "listener_list this (ev_type ev) = None"
    using register_all_entry_none [OF assms, of "ev_type ev"] a
    by (simp add: listener_list_def new_EventTarget_def)
  ultimately have "\<not> can_dispatch this (ev_type ev)"
    by (simp add: can_dispatch_iff)
  then show "fst (dispatchEvent this ev s) = Inl NotIterable"
    using dispatchEvent_cases [of this ev s] by auto
next
  assume "\<exists>r\<in>set history. adds (ev_type ev) r"
  then have "listener_list this (ev_type ev) \<noteq> None"
    using register_all_entry_some [OF assms] by blast
  then have "can_dispatch this (ev_type ev)"
    by (simp add: can_dispatch_iff)
  then show "\<exists>ev'. fst (dispatchEvent this ev s) = Inr ev'"
    using dispatchEvent_cases [of this ev s] by auto
next
  assume "\<not> (\<exists>r\<in>set history. is_Add r)"
  then have "this = new_EventTarget"
    using register_all_no_table [OF assms] by (simp add: new_EventTarget_def)
  then show "dispatchEvent this ev s = (Inr ev, s\<lparr>trace := trace s @ [DispatchEvent ev]\<rparr>)"
    by (simp add: dispatchEvent_def new_EventTarget_def bnd_def log_def ok_def)
qed

theorem dispatchEvent_unregistered_type_witness:
  "register_all [Add ''message'' noop_listener] new_EventTarget = Inr message_target \<and>
   is_Add (Add ''message'' noop_listener) \<and>
   \<not> adds (ev_type (new_Event ''keychange'' NoData)) (Add ''message'' noop_listener) \<and>
   fst (dispatchEvent message_target (new_Event ''keychange'' NoData) initial_state)
     = Inl NotIterable"
proof -
  have h: "register_all [Add ''message'' noop_listener] new_EventTarget = Inr message_target"
    by (simp add: new_EventTarget_def addEventListener_def message_target_def)
  show ?thesis
    using h dispatchEvent_unregistered_type [OF h, of "new_Event ''keychange'' NoData" initial_state]
    by (simp add: new_Event_def)
qed

section \<open>Collaborator calls record nothing\<close>

lemma keeps_handleEndSession: "world_free f \<Longrightarrow> keeps f (handleEndSession c a)"
  unfolding handleEndSession_def
  by (intro keeps_bnd keeps_ext keeps_ok keeps_promise_all) (auto intro: keeps_ext)

lemma keeps_handleAttachment: "world_free f \<Longrightarrow> keeps f (handleAttachment c a)"
  unfolding handleAttachment_def
  by (intro keeps_bnd keeps_ext keeps_ok keeps_lift)

lemma keeps_processDecrypted: "world_free f \<Longrightarrow> keeps f (processDecrypted c msg src)"
  unfolding processDecrypted_def Let_def
  by (auto intro!: keeps_bnd keeps_ok keeps_promise_all keeps_handleAttachment
           split: option.splits)

lemma keeps_decryptPreKeyWhisperMessage:
  "world_free f \<Longrightarrow> keeps f (decryptPreKeyWhisperMessage c ct a)"
  unfolding decryptPreKeyWhisperMessage_def
  by (intro keeps_try_catch keeps_bnd keeps_ext keeps_lift keeps_if keeps_raise)

lemma keeps_decrypt: "world_free f \<Longrightarrow> keeps f (decrypt c envelope ct)"
  unfolding decrypt_def Let_def
  by (intro keeps_if keeps_bnd keeps_ext keeps_lift keeps_raise
        keeps_decryptPreKeyWhisperMessage)

section \<open>Sync messages\<close>

text \<open>
  Claim C7, as stated: a sync message fails with \<open>ForeignSyncError\<close> when the envelope's
  source is not the own address and with \<open>SelfSyncError\<close> when its device is the own
  device. The address is tested first: on an envelope from another address that carries
  the own device id, the failure is \<open>ForeignSyncError\<close>, not \<open>SelfSyncError\<close>.
\<close>

theorem handleSyncMessage_foreign_own_device:
  "source example_envelope \<noteq> addr example_receiver \<and>
   sourceDevice example_envelope = deviceId example_receiver \<and>
   handleSyncMessage example_collab example_receiver blocked_only example_envelope initial_state
     = (Inl ForeignSyncError, initial_state) \<and>
   ForeignSyncError \<noteq> SelfSyncError"
  by (simp add: handleSyncMessage_def raise_def example_envelope_def example_receiver_def
        ForeignSyncError_def SelfSyncError_def ReferenceError_def)

text \<open>
  Claim C7, amended. The guards are first-match: a sync message whose envelope comes from
  another address fails with \<open>ForeignSyncError\<close>, whatever its device; one from the own
  address and the own device fails with \<open>SelfSyncError\<close>; in either case nothing is
  dispatched: the state, hence the list of dispatched events, is unchanged.
\<close>

theorem handleSyncMessage_guards:
  "(source envelope \<noteq> addr this \<longrightarrow>
      handleSyncMessage c this message envelope s = (Inl ForeignSyncError, s)) \<and>
   (source envelope = addr this \<and> sourceDevice envelope = deviceId this \<longrightarrow>
      handleSyncMessage c this message envelope s = (Inl SelfSyncError, s)) \<and>
   (source envelope \<noteq> addr this \<or> sourceDevice envelope = deviceId this \<longrightarrow>
      (\<exists>e. fst (handleSyncMessage c this message envelope s) = Inl e) \<and>
      dispatched (snd (handleSyncMessage c this message envelope s)) = dispatched s)"
  by (simp add: handleSyncMessage_def raise_def ForeignSyncError_def SelfSyncError_def)

theorem handleSyncMessage_guards_witness:
  "source example_envelope \<noteq> addr example_receiver \<and>
   handleSyncMessage example_collab example_receiver blocked_only example_envelope initial_state
     = (Inl ForeignSyncError, initial_state) \<and>
   source (own_envelope 1) = addr example_receiver \<and>
   sourceDevice (own_envelope 1) = deviceId example_receiver \<and>
   handleSyncMessage example_collab example_receiver blocked_only (own_envelope 1) initial_state
     = (Inl SelfSyncError, initial_state)"
  using handleSyncMessage_guards [of example_envelope example_receiver example_collab
      blocked_only initial_state]
    handleSyncMessage_guards [of "own_envelope 1" example_receiver example_collab
      blocked_only initial_state]
  by (simp add: example_envelope_def example_receiver_def own_envelope_def)

text \<open>
  Claim C3, as stated: \<^verbatim>\<open>blocked\<close> is tested before \<^verbatim>\<open>contacts\<close>, \<^verbatim>\<open>groups\<close> and
  \<^verbatim>\<open>request\<close>, so a sync message with both \<^verbatim>\<open>blocked\<close> and \<^verbatim>\<open>contacts\<close> takes the
  blocked branch. The source tests \<^verbatim>\<open>contacts\<close> and \<^verbatim>\<open>groups\<close> first: such a message
  fails as a deprecated contact sync, not as unsupported.
\<close>

theorem handleSyncMessage_contacts_before_blocked:
  "handleSyncMessage example_collab example_receiver blocked_and_contacts (own_envelope 2)
     initial_state = (Inl (DeprecatedSync ''contact''), initial_state) \<and>
   DeprecatedSync ''contact'' \<noteq> Unsupported"
  by (simp add: handleSyncMessage_def raise_def example_receiver_def own_envelope_def
        example_envelope_def blocked_and_contacts_def read_entries_def DeprecatedSync_def
        Unsupported_def TypeError_def Error_def)

text \<open>
  Claim C3, amended. Past the two guards, the first match decides, in this order:
  \<^verbatim>\<open>sent\<close>; a non-empty \<^verbatim>\<open>read\<close>; \<^verbatim>\<open>contacts\<close> (deprecated); \<^verbatim>\<open>groups\<close>
  (deprecated); \<^verbatim>\<open>blocked\<close> (unsupported); \<^verbatim>\<open>request\<close> (deprecated); otherwise the
  empty sync error. The failing branches leave the state as it was.
\<close>

theorem handleSyncMessage_order:
  assumes "source envelope = addr this" and "sourceDevice envelope \<noteq> deviceId this"
  shows
   "(\<forall>snt. sent message = Some snt \<longrightarrow>
       handleSyncMessage c this message envelope = handleSentMessage c this snt envelope) \<and>
    (sent message = None \<and> read_entries message \<noteq> [] \<longrightarrow>
       handleSyncMessage c this message envelope
         = handleRead this (read_entries message) envelope) \<and>
    (sent message = None \<and> read_entries message = [] \<and> contacts message \<noteq> None \<longrightarrow>
       handleSyncMessage c this message envelope s = (Inl (DeprecatedSync ''contact''), s)) \<and>
    (sent message = None \<and> read_entries message = [] \<and> contacts message = None \<and>
     groups message \<noteq> None \<longrightarrow>
       handleSyncMessage c this message envelope s = (Inl (DeprecatedSync ''group''), s)) \<and>
    (sent message = None \<and> read_entries message = [] \<and> contacts message = None \<and>
     groups message = None \<and> blocked message \<noteq> None \<longrightarrow>
       handleSyncMessage c this message envelope s = (Inl Unsupported, s)) \<and>
    (sent message = None \<and> read_entries message = [] \<and> contacts message = None \<and>
     groups message = None \<and> blocked message = None \<and> request message \<noteq> None \<longrightarrow>
       handleSyncMessage c this message envelope s
         = (Inl (DeprecatedSync ''group request''), s)) \<and>
    (sent message = None \<and> read_entries message = [] \<and> contacts message = None \<and>
     groups message = None \<and> blocked message = None \<and> request message = None \<longrightarrow>
       handleSyncMessage c this message envelope s = (Inl EmptySync, s))"
  using assms
  by (auto simp add: handleSyncMessage_def raise_def handleBlocked_def DeprecatedSync_def
        Unsupported_def EmptySync_def)

theorem handleSyncMessage_order_witness:
  "source (own_envelope 2) = addr example_receiver \<and>
   sourceDevice (own_envelope 2) \<noteq> deviceId example_receiver \<and>
   sent blocked_only = None \<and> read_entries blocked_only = [] \<and> contacts blocked_only = None \<and>
   groups blocked_only = None \<and> blocked blocked_only \<noteq> None \<and>
   handleSyncMessage example_collab example_receiver blocked_only (own_envelope 2) initial_state
     = (Inl Unsupported, initial_state)"
proof -
  have a: "source (own_envelope 2) = addr example_receiver"
    by (simp add: own_envelope_def example_receiver_def)
  have b: "sourceDevice (own_envelope 2) \<noteq> deviceId example_receiver"
    by (simp add: own_envelope_def example_receiver_def)
  show ?thesis
    using a b handleSyncMessage_order [OF a b, of blocked_only example_collab initial_state]
    by (simp add: blocked_only_def read_entries_def)
qed

section \<open>Data messages\<close>

lemma handleDataMessage_trace:
  assumes "handleDataMessage c this message envelope s = (r, s')"
  shows "(trace s' = trace s \<and> (\<exists>e. r = Inl e)) \<or>
         (\<exists>message'. trace s' = trace s @ [DispatchEvent (new_Event ''message'' (MessageData
            \<lparr>md_timestamp = timestamp envelope, md_source = source envelope,
             md_sourceDevice = sourceDevice envelope, md_message = message',
             md_keyChange = keyChange envelope\<rparr>))])"
proof -
  let ?pre = "if flag_set (flags message) (END_SESSION c)
              then handleEndSession c (source envelope) else ok ()"
  have kpre: "keeps trace ?pre"
    by (simp add: keeps_handleEndSession world_free_trace keeps_ok)
  have kpd: "keeps trace (processDecrypted c message (source envelope))"
    by (rule keeps_processDecrypted [OF world_free_trace])
  from assms show ?thesis
    unfolding handleDataMessage_def
  proof (cases rule: bnd_cases)
    case (fails e)
    then show ?thesis using keepsD [OF kpre] by blast
  next
    case (continues u s1)
    have t1: "trace s1 = trace s" using keepsD [OF kpre continues(1)] .
    from continues(2) show ?thesis
    proof (cases rule: bnd_cases)
      case (fails e)
      then show ?thesis using keepsD [OF kpd] t1 by force
    next
      case (continues message' s2)
      have t2: "trace s2 = trace s" using keepsD [OF kpd continues(1)] t1 by simp
      let ?ev = "new_Event ''message'' (MessageData
            \<lparr>md_timestamp = timestamp envelope, md_source = source envelope,
             md_sourceDevice = sourceDevice envelope, md_message = message',
             md_keyChange = keyChange envelope\<rparr>)"
      from continues(2) have "trace s' = trace s2 @ [DispatchEvent ?ev]"
      proof (cases rule: bnd_cases)
        case (fails e)
        then show ?thesis using dispatchEvent_trace [of this ?ev s2] by simp
      next
        case (continues ev' s3)
        then show ?thesis using dispatchEvent_trace [of this ?ev s2] by (simp add: ok_def)
      qed
      then show ?thesis using t2 by auto
    qed
  qed
qed

text \<open>
  Claim C8, as stated: for an envelope whose \<^verbatim>\<open>keyChange\<close> was never set, the
  \<^verbatim>\<open>message\<close> event carries \<^verbatim>\<open>keyChange\<close> equal to \<^verbatim>\<open>false\<close>. The payload copies
  \<^verbatim>\<open>envelope.keyChange\<close>, which is \<^verbatim>\<open>undefined\<close> on such an envelope: the event carries
  \<^verbatim>\<open>undefined\<close>, which is not the boolean \<^verbatim>\<open>false\<close>.
\<close>

theorem handleDataMessage_keyChange_not_false:
  "keyChange example_envelope = None \<and>
   dispatched (snd (handleDataMessage example_collab listening_receiver example_message
                      example_envelope initial_state))
     = [new_Event ''message'' (MessageData
          \<lparr>md_timestamp = 1000, md_source = ''+15550001111'', md_sourceDevice = 1,
           md_message = example_message\<lparr>flags := Some 0, expireTimer := Some 0\<rparr>,
           md_keyChange = None\<rparr>)] \<and>
   (None :: bool option) \<noteq> Some False"
  by (simp add: handleDataMessage_def processDecrypted_def flag_set_def bnd_def ok_def
        dispatchEvent_def log_def dispatched_def listening_receiver_def example_receiver_def
        example_collab_def example_message_def example_envelope_def initial_state_def
        noop_listener_def new_Event_def)

text \<open>
  Claim C8, amended. For an envelope whose \<^verbatim>\<open>keyChange\<close> was never set, every event
  \<^verbatim>\<open>handleDataMessage\<close> dispatches is a \<^verbatim>\<open>message\<close> event whose payload carries
  \<^verbatim>\<open>keyChange\<close> undefined (so never \<^verbatim>\<open>true\<close>), and a call that returns normally
  dispatches exactly one.
\<close>

theorem handleDataMessage_keyChange_undefined:
  assumes "keyChange envelope = None"
  shows "\<exists>evs. dispatched (snd (handleDataMessage c this message envelope s))
                 = dispatched s @ evs \<and>
           (\<forall>ev\<in>set evs. \<exists>d. ev_type ev = ''message'' \<and> ev_data ev = MessageData d \<and>
                             md_keyChange d = None) \<and>
           (fst (handleDataMessage c this message envelope s) = Inr () \<longrightarrow> length evs = 1)"
proof -
  obtain r s' where run: "handleDataMessage c this message envelope s = (r, s')"
    by (cases "handleDataMessage c this message envelope s")
  from handleDataMessage_trace [OF run] show ?thesis
  proof
    assume "trace s' = trace s \<and> (\<exists>e. r = Inl e)"
    then have "dispatched s' = dispatched s @ []" and "r \<noteq> Inr ()"
      by (auto simp: dispatched_def)
    then show ?thesis using run by force
  next
    assume "\<exists>message'. trace s' = trace s @ [DispatchEvent (new_Event ''message'' (MessageData
              \<lparr>md_timestamp = timestamp envelope, md_source = source envelope,
               md_sourceDevice = sourceDevice envelope, md_message = message',
               md_keyChange = keyChange envelope\<rparr>))]"
    then obtain message' where
      "dispatched s' = dispatched s @ [new_Event ''message'' (MessageData
              \<lparr>md_timestamp = timestamp envelope, md_source = source envelope,
               md_sourceDevice = sourceDevice envelope, md_message = message',
               md_keyChange = keyChange envelope\<rparr>)]"
      by (auto simp: dispatched_def)
    then show ?thesis using assms run by (force simp: new_Event_def)
  qed
qed

theorem handleDataMessage_keyChange_undefined_witness:
  "keyChange example_envelope = None \<and>
   fst (handleDataMessage example_collab listening_receiver example_message example_envelope
          initial_state) = Inr () \<and>
   map ev_type (dispatched (snd (handleDataMessage example_collab listening_receiver
          example_message example_envelope initial_state))) = [''message'']"
proof -
  have h: "keyChange example_envelope = None"
    by (simp add: example_envelope_def)
  show ?thesis
    using h handleDataMessage_keyChange_undefined [OF h, of example_collab listening_receiver
        example_message initial_state]
    by (simp add: handleDataMessage_def processDecrypted_def flag_set_def bnd_def ok_def
          dispatchEvent_def log_def dispatched_def listening_receiver_def example_receiver_def
          example_collab_def example_message_def example_envelope_def initial_state_def
          noop_listener_def new_Event_def)
qed

section \<open>Handlers and what they record\<close>

lemma keeps_handleDeliveryReceipt:
  "world_free f \<Longrightarrow> ignores_dispatch f \<Longrightarrow> keeps f (handleDeliveryReceipt this envelope)"
  unfolding handleDeliveryReceipt_def
  by (intro keeps_bnd keeps_dispatchEvent keeps_ok)

lemma keeps_handleDataMessage:
  "world_free f \<Longrightarrow> ignores_dispatch f \<Longrightarrow> keeps f (handleDataMessage c this message envelope)"
  unfolding handleDataMessage_def
  by (intro keeps_bnd keeps_if keeps_handleEndSession keeps_processDecrypted
        keeps_dispatchEvent keeps_ok)

lemma keeps_handleSentMessage:
  "world_free f \<Longrightarrow> ignores_dispatch f \<Longrightarrow> keeps f (handleSentMessage c this snt envelope)"
  unfolding handleSentMessage_def
  by (intro keeps_case_option keeps_raise keeps_bnd keeps_if keeps_handleEndSession
        keeps_processDecrypted keeps_dispatchEvent keeps_ok)

lemma keeps_handleRead:
  "world_free f \<Longrightarrow> ignores_dispatch f \<Longrightarrow> keeps f (handleRead this xs envelope)"
proof (induction xs)
  case Nil
  show ?case by (simp add: keeps_ok)
next
  case (Cons x xs)
  then show ?case by (simp add: keeps_bnd keeps_dispatchEvent)
qed

lemma keeps_handleSyncMessage:
  "world_free f \<Longrightarrow> ignores_dispatch f \<Longrightarrow> keeps f (handleSyncMessage c this message envelope)"
  unfolding handleSyncMessage_def handleBlocked_def
  by (intro keeps_if keeps_raise keeps_case_option keeps_handleSentMessage keeps_handleRead)

lemma keeps_handleLegacyMessage:
  "world_free f \<Longrightarrow> ignores_dispatch f \<Longrightarrow> keeps f (handleLegacyMessage c this envelope)"
  unfolding handleLegacyMessage_def
  by (intro keeps_case_option keeps_raise keeps_bnd keeps_decrypt keeps_lift
        keeps_handleDataMessage)

lemma keeps_handleContentMessage:
  "world_free f \<Longrightarrow> ignores_dispatch f \<Longrightarrow> keeps f (handleContentMessage c this envelope)"
  unfolding handleContentMessage_def
  by (intro keeps_case_option keeps_raise keeps_bnd keeps_decrypt keeps_lift
        keeps_handleDataMessage keeps_handleSyncMessage)

lemma keeps_handler:
  "world_free f \<Longrightarrow> ignores_dispatch f \<Longrightarrow>
   keeps f (case h of
              DeliveryReceiptHandler \<Rightarrow> handleDeliveryReceipt this envelope
            | ContentMessageHandler \<Rightarrow> handleContentMessage c this envelope
            | LegacyMessageHandler \<Rightarrow> handleLegacyMessage c this envelope)"
  by (cases h)
    (simp_all add: keeps_handleDeliveryReceipt keeps_handleContentMessage
       keeps_handleLegacyMessage)

lemma keeps_log_call: "ignores_calls f \<Longrightarrow> keeps f (log (CallHandler h re))"
  by (simp add: keeps_def log_def ignores_calls_def)

lemma keeps_call_handler:
  "world_free f \<Longrightarrow> ignores_dispatch f \<Longrightarrow> ignores_calls f \<Longrightarrow>
   keeps f (call_handler c this h envelope re)"
  unfolding call_handler_def
  by (intro keeps_bnd keeps_log_call keeps_handler)

subsection \<open>Failing with a counter error happens before any dispatch\<close>

lemma quiet_keeps: "keeps trace m \<Longrightarrow> quiet m"
  unfolding quiet_def by (auto dest: keepsD)

lemma quiet_no_mce: "no_mce m \<Longrightarrow> quiet m"
  unfolding quiet_def no_mce_def by blast

lemma quiet_bnd:
  assumes "keeps trace m" and "\<And>x. quiet (k x)"
  shows "quiet (bnd m k)"
  unfolding quiet_def
proof (intro allI impI)
  fix s e s'
  assume a: "bnd m k s = (Inl e, s') \<and> err_name e = ''MessageCounterError''"
  then have "bnd m k s = (Inl e, s')" by simp
  then show "trace s' = trace s"
  proof (cases rule: bnd_cases)
    case (fails e')
    then show ?thesis using keepsD [OF assms(1)] by blast
  next
    case (continues x s1)
    have "trace s1 = trace s" using keepsD [OF assms(1) continues(1)] .
    moreover have "trace s' = trace s1"
      using assms(2) [of x] continues(2) a unfolding quiet_def by blast
    ultimately show ?thesis by simp
  qed
qed

lemma no_mce_bnd:
  assumes "no_mce m" and "\<And>x. no_mce (k x)"
  shows "no_mce (bnd m k)"
  unfolding no_mce_def
proof (intro allI impI)
  fix s e s'
  assume "bnd m k s = (Inl e, s')"
  then show "err_name e \<noteq> ''MessageCounterError''"
  proof (cases rule: bnd_cases)
    case (fails e')
    then show ?thesis using assms(1) unfolding no_mce_def by blast
  next
    case (continues x s1)
    then show ?thesis using assms(2) [of x] unfolding no_mce_def by blast
  qed
qed

lemma no_mce_ok: "no_mce (ok x)"
  by (simp add: no_mce_def ok_def)

lemma no_mce_dispatchEvent: "no_mce (dispatchEvent this ev)"
  unfolding no_mce_def
  by (auto dest!: dispatchEvent_fails simp: err_name_NotIterable)

lemma no_mce_handleRead: "no_mce (handleRead this xs envelope)"
  by (induction xs) (simp_all add: no_mce_ok no_mce_bnd no_mce_dispatchEvent)

lemma quiet_if: "quiet a \<Longrightarrow> quiet b \<Longrightarrow> quiet (if P then a else b)"
  by simp

lemma quiet_case_option:
  "quiet a \<Longrightarrow> (\<And>x. quiet (b x)) \<Longrightarrow> quiet (case v of None \<Rightarrow> a | Some x \<Rightarrow> b x)"
  by (cases v) simp_all

lemma quiet_raise: "quiet (raise e)"
  by (rule quiet_keeps [OF keeps_raise])

lemma quiet_dispatch_then_ok: "quiet (bnd (dispatchEvent this ev) (\<lambda>ev'. ok ()))"
  by (intro quiet_no_mce no_mce_bnd no_mce_dispatchEvent no_mce_ok)

lemma quiet_handleDeliveryReceipt: "quiet (handleDeliveryReceipt this envelope)"
  unfolding handleDeliveryReceipt_def by (rule quiet_dispatch_then_ok)

lemma quiet_handleDataMessage: "quiet (handleDataMessage c this message envelope)"
  unfolding handleDataMessage_def
  by (intro quiet_bnd quiet_dispatch_then_ok keeps_if keeps_ok
        keeps_handleEndSession keeps_processDecrypted world_free_trace)

lemma quiet_handleSentMessage: "quiet (handleSentMessage c this snt envelope)"
  unfolding handleSentMessage_def
  by (intro quiet_case_option quiet_raise quiet_bnd quiet_dispatch_then_ok keeps_if keeps_ok
        keeps_handleEndSession keeps_processDecrypted world_free_trace)

lemma quiet_handleSyncMessage: "quiet (handleSyncMessage c this message envelope)"
  unfolding handleSyncMessage_def handleBlocked_def
  by (intro quiet_if quiet_raise quiet_case_option quiet_handleSentMessage
        quiet_no_mce no_mce_handleRead)

lemma quiet_handleLegacyMessage: "quiet (handleLegacyMessage c this envelope)"
  unfolding handleLegacyMessage_def
  by (intro quiet_case_option quiet_raise quiet_bnd quiet_handleDataMessage
        keeps_decrypt keeps_lift world_free_trace)

lemma quiet_handleContentMessage: "quiet (handleContentMessage c this envelope)"
  unfolding handleContentMessage_def
  by (intro quiet_case_option quiet_raise quiet_bnd quiet_handleDataMessage
        quiet_handleSyncMessage keeps_decrypt keeps_lift world_free_trace)

lemma call_handler_MessageCounterError:
  assumes "call_handler c this h envelope reentrant s = (Inl e, s')"
    and "err_name e = ''MessageCounterError''"
  shows "trace s' = trace s @ [CallHandler h reentrant]"
proof -
  let ?s1 = "s\<lparr>trace := trace s @ [CallHandler h reentrant]\<rparr>"
  let ?m = "case h of
              DeliveryReceiptHandler \<Rightarrow> handleDeliveryReceipt this envelope
            | ContentMessageHandler \<Rightarrow> handleContentMessage c this envelope
            | LegacyMessageHandler \<Rightarrow> handleLegacyMessage c this envelope"
  have "quiet ?m"
    by (cases h)
      (simp_all add: quiet_handleDeliveryReceipt quiet_handleContentMessage
         quiet_handleLegacyMessage)
  moreover have "?m ?s1 = (Inl e, s')"
    using assms(1) by (simp add: call_handler_def bnd_def log_def)
  ultimately have "trace s' = trace ?s1"
    using assms(2) unfolding quiet_def by blast
  then show ?thesis by simp
qed

section \<open>The envelope dispatcher\<close>

lemma handleEnvelope_reentrant:
  "handleEnvelope c this envelope True =
     bnd (lift (select_handler envelope)) (\<lambda>h.
       try_catch (call_handler c this h envelope True)
         (\<lambda>e. if err_name e = ''MessageCounterError'' then ok ()
               else if instanceof_TextSecureError c e then ok ()
               else bnd (dispatchEvent this (new_Event ''error'' (ErrorData e (Some envelope))))
                      (\<lambda>ev. raise e)))"
  by (subst handleEnvelope.simps) (simp cong: if_cong)

lemma keeps_handleEnvelope_reentrant:
  assumes "world_free f" and "ignores_dispatch f" and "ignores_calls f"
  shows "keeps f (handleEnvelope c this envelope True)"
  unfolding handleEnvelope_reentrant
  by (intro keeps_bnd keeps_lift keeps_try_catch keeps_call_handler keeps_if keeps_ok
       keeps_dispatchEvent keeps_raise assms)

lemma keeps_handleEnvelope:
  assumes "world_free f" and "ignores_dispatch f" and "ignores_calls f"
  shows "keeps f (handleEnvelope c this envelope reentrant)"
  by (subst handleEnvelope.simps)
    (intro keeps_bnd keeps_lift keeps_try_catch keeps_call_handler keeps_if keeps_ok
       keeps_dispatchEvent keeps_raise keeps_handleEnvelope_reentrant assms)

text \<open>
  Claim C9, as stated: when the handler of an envelope fails with
  \<^verbatim>\<open>MessageCounterError\<close>, \<^verbatim>\<open>handleEnvelope\<close> returns normally and no event is
  dispatched for that envelope. When the failure happens on the re-entry after an accepted
  key change, \<^verbatim>\<open>handleEnvelope\<close> does return normally, but the \<^verbatim>\<open>keychange\<close> event
  has been dispatched for the envelope.
\<close>

theorem handleEnvelope_counter_error_after_keychange:
  "call_handler rekey_collab accepting_receiver ContentMessageHandler
     (prekey_envelope\<lparr>keyChange := Some True\<rparr>) True
     \<lparr>world = True,
      trace = [CallHandler ContentMessageHandler False, DispatchEvent example_keychange]\<rparr>
     = (Inl (JsError ''MessageCounterError'' ''Key used already or never filled'' None),
        \<lparr>world = True,
         trace = [CallHandler ContentMessageHandler False, DispatchEvent example_keychange,
                  CallHandler ContentMessageHandler True]\<rparr>) \<and>
   handleEnvelope rekey_collab accepting_receiver prekey_envelope False
     \<lparr>world = False, trace = []\<rparr>
     = (Inr (),
        \<lparr>world = True,
         trace = [CallHandler ContentMessageHandler False, DispatchEvent example_keychange,
                  CallHandler ContentMessageHandler True]\<rparr>) \<and>
   dispatched
     \<lparr>world = True,
      trace = [CallHandler ContentMessageHandler False, DispatchEvent example_keychange,
               CallHandler ContentMessageHandler True]\<rparr>
     = [example_keychange]"
proof (intro conjI)
  show "call_handler rekey_collab accepting_receiver ContentMessageHandler
     (prekey_envelope\<lparr>keyChange := Some True\<rparr>) True
     \<lparr>world = True,
      trace = [CallHandler ContentMessageHandler False, DispatchEvent example_keychange]\<rparr>
     = (Inl (JsError ''MessageCounterError'' ''Key used already or never filled'' None),
        \<lparr>world = True,
         trace = [CallHandler ContentMessageHandler False, DispatchEvent example_keychange,
                  CallHandler ContentMessageHandler True]\<rparr>)"
    by (simp add: call_handler_def handleContentMessage_def decrypt_def
          decryptPreKeyWhisperMessage_def bnd_def try_catch_def log_def ext_def raise_def
          prekey_envelope_def example_envelope_def rekey_collab_def)
  show "handleEnvelope rekey_collab accepting_receiver prekey_envelope False
     \<lparr>world = False, trace = []\<rparr>
     = (Inr (),
        \<lparr>world = True,
         trace = [CallHandler ContentMessageHandler False, DispatchEvent example_keychange,
                  CallHandler ContentMessageHandler True]\<rparr>)"
    by (subst handleEnvelope.simps)
      (simp add: handleEnvelope_reentrant select_handler_def call_handler_def
         handleContentMessage_def decrypt_def decryptPreKeyWhisperMessage_def bnd_def lift_def
         try_catch_def log_def ext_def raise_def ok_def instanceof_IncomingIdentityKeyError_def
         keychange_event_def dispatchEvent_def prekey_envelope_def example_envelope_def
         rekey_collab_def accepting_receiver_def accepting_listener_def example_keychange_def
         new_Event_def)
  show "dispatched
     \<lparr>world = True,
      trace = [CallHandler ContentMessageHandler False, DispatchEvent example_keychange,
               CallHandler ContentMessageHandler True]\<rparr>
     = [example_keychange]"
    by (simp add: dispatched_def)
qed

text \<open>
  Claim C9, amended. When the handler called by \<^verbatim>\<open>handleEnvelope(envelope, reentrant)\<close>
  fails with an error named \<^verbatim>\<open>MessageCounterError\<close>, that call returns normally, in
  the state the handler left, and has dispatched no event between its entry and its
  return. Events dispatched for the envelope before a re-entry are not covered.
\<close>

theorem handleEnvelope_MessageCounterError:
  assumes "select_handler envelope = Inr h"
    and "call_handler c this h envelope reentrant s = (Inl e, s')"
    and "err_name e = ''MessageCounterError''"
  shows "handleEnvelope c this envelope reentrant s = (Inr (), s') \<and>
         dispatched s' = dispatched s"
proof
  show "handleEnvelope c this envelope reentrant s = (Inr (), s')"
    by (subst handleEnvelope.simps)
      (simp add: assms bnd_def lift_def try_catch_def ok_def)
  show "dispatched s' = dispatched s"
    using call_handler_MessageCounterError [OF assms(2,3)] by (simp add: dispatched_def)
qed

theorem handleEnvelope_MessageCounterError_witness:
  "select_handler example_envelope = Inr ContentMessageHandler \<and>
   call_handler replay_collab listening_receiver ContentMessageHandler example_envelope False
     initial_state
     = (Inl (JsError ''MessageCounterError'' ''Key used already or never filled'' None),
        initial_state\<lparr>trace := [CallHandler ContentMessageHandler False]\<rparr>) \<and>
   err_name (JsError ''MessageCounterError'' ''Key used already or never filled'' None)
     = ''MessageCounterError'' \<and>
   handleEnvelope replay_collab listening_receiver example_envelope False initial_state
     = (Inr (), initial_state\<lparr>trace := [CallHandler ContentMessageHandler False]\<rparr>) \<and>
   dispatched (initial_state\<lparr>trace := [CallHandler ContentMessageHandler False]\<rparr>)
     = dispatched initial_state"
proof -
  have a: "select_handler example_envelope = Inr ContentMessageHandler"
    by (simp add: select_handler_def example_envelope_def)
  have b: "call_handler replay_collab listening_receiver ContentMessageHandler example_envelope
      False initial_state
     = (Inl (JsError ''MessageCounterError'' ''Key used already or never filled'' None),
        initial_state\<lparr>trace := [CallHandler ContentMessageHandler False]\<rparr>)"
    by (simp add: call_handler_def handleContentMessage_def decrypt_def bnd_def log_def ext_def
          replay_collab_def example_collab_def example_envelope_def initial_state_def)
  have c: "err_name (JsError ''MessageCounterError'' ''Key used already or never filled'' None)
     = ''MessageCounterError''"
    by simp
  show ?thesis
    using a b c handleEnvelope_MessageCounterError [OF a b c] by simp
qed

text \<open>
  Claim C6. The claim: an identity-key error in a call that is not reentrant leads to one
  \<^verbatim>\<open>keychange\<close> event, then to one re-entry if a listener accepted, and is swallowed
  otherwise. On a receiver that has a \<^verbatim>\<open>message\<close> listener and no \<^verbatim>\<open>keychange\<close>
  listener, dispatching the \<^verbatim>\<open>keychange\<close> event throws inside the \<^verbatim>\<open>catch\<close> block:
  \<^verbatim>\<open>handleEnvelope\<close> fails with that \<^verbatim>\<open>TypeError\<close> instead of swallowing the error.
\<close>

theorem handleEnvelope_keychange_without_listener:
  "handleEnvelope example_collab listening_receiver prekey_envelope False initial_state
     = (Inl NotIterable,
        initial_state\<lparr>trace :=
          [CallHandler ContentMessageHandler False,
           DispatchEvent (new_Event ''keychange''
             (KeychangeData (''+15550001111'', 1) (Some [0x05])))]\<rparr>)"
  by (subst handleEnvelope.simps)
    (simp add: select_handler_def call_handler_def handleContentMessage_def decrypt_def
       decryptPreKeyWhisperMessage_def bnd_def lift_def try_catch_def log_def ext_def raise_def
       instanceof_IncomingIdentityKeyError_def keychange_event_def dispatchEvent_def
       prekey_envelope_def example_envelope_def example_collab_def listening_receiver_def
       example_receiver_def initial_state_def new_Event_def)

text \<open>
  What does hold of the identity-key path: when the \<^verbatim>\<open>keychange\<close> dispatch completes,
  the outcome is the re-entered call on the envelope flagged \<^verbatim>\<open>keyChange = true\<close> if the
  event was accepted, and a normal return otherwise; and whatever happens, one call of
  \<^verbatim>\<open>handleEnvelope\<close> makes at most one handler call with \<^verbatim>\<open>reentrant = true\<close>.
\<close>

lemma bumps_keeps: "keeps reentries m \<Longrightarrow> bumps m"
  by (simp add: bumps_def keeps_def)

lemma bumps_after_keeps:
  assumes "keeps reentries m" and "\<And>x. bumps (k x)"
  shows "bumps (bnd m k)"
  unfolding bumps_def
proof
  fix s
  obtain r s' where run: "bnd m k s = (r, s')" by (cases "bnd m k s")
  then have "reentries s' \<le> reentries s + 1"
  proof (cases rule: bnd_cases)
    case (fails e)
    then show ?thesis using keepsD [OF assms(1)] by fastforce
  next
    case (continues x s1)
    have "reentries s1 = reentries s" using keepsD [OF assms(1) continues(1)] .
    moreover have "reentries s' \<le> reentries s1 + 1"
      using assms(2) [of x] continues(2) unfolding bumps_def by (metis snd_conv)
    ultimately show ?thesis by simp
  qed
  then show "reentries (snd (bnd m k s)) \<le> reentries s + 1" using run by simp
qed

lemma bumps_try_catch_keeps:
  assumes "bumps m" and "\<And>e. keeps reentries (h e)"
  shows "bumps (try_catch m h)"
  unfolding bumps_def
proof
  fix s
  obtain r s1 where run: "m s = (r, s1)" by (cases "m s")
  have 1: "reentries s1 \<le> reentries s + 1"
    using assms(1) run unfolding bumps_def by (metis snd_conv)
  show "reentries (snd (try_catch m h s)) \<le> reentries s + 1"
  proof (cases r)
    case (Inl e)
    have "reentries (snd (h e s1)) = reentries s1"
      using assms(2) [of e] by (simp add: keeps_def)
    then show ?thesis using run Inl 1 by (simp add: try_catch_def)
  next
    case (Inr x)
    then show ?thesis using run 1 by (simp add: try_catch_def)
  qed
qed

lemma bumps_keeps_try_catch:
  assumes "keeps reentries m" and "\<And>e. bumps (h e)"
  shows "bumps (try_catch m h)"
  unfolding bumps_def
proof
  fix s
  obtain r s1 where run: "m s = (r, s1)" by (cases "m s")
  have 1: "reentries s1 = reentries s" using keepsD [OF assms(1) run] .
  show "reentries (snd (try_catch m h s)) \<le> reentries s + 1"
  proof (cases r)
    case (Inl e)
    have "reentries (snd (h e s1)) \<le> reentries s1 + 1"
      using assms(2) [of e] by (simp add: bumps_def)
    then show ?thesis using run Inl 1 by (simp add: try_catch_def)
  next
    case (Inr x)
    then show ?thesis using run 1 by (simp add: try_catch_def)
  qed
qed

lemma bumps_ok: "bumps (ok x)"
  by (rule bumps_keeps [OF keeps_ok])

lemma bumps_raise: "bumps (raise e)"
  by (rule bumps_keeps [OF keeps_raise])

lemma bumps_if: "bumps a \<Longrightarrow> bumps b \<Longrightarrow> bumps (if P then a else b)"
  by simp

lemma bumps_call_handler: "bumps (call_handler c this h envelope re)"
  unfolding bumps_def
proof
  fix s :: "'a state"
  let ?s1 = "s\<lparr>trace := trace s @ [CallHandler h re]\<rparr>"
  let ?m = "case h of
              DeliveryReceiptHandler \<Rightarrow> handleDeliveryReceipt this envelope
            | ContentMessageHandler \<Rightarrow> handleContentMessage c this envelope
            | LegacyMessageHandler \<Rightarrow> handleLegacyMessage c this envelope"
  have "reentries (snd (?m ?s1)) = reentries ?s1"
    by (rule keeps_handler [OF world_free_reentries ignores_dispatch_reentries,
          unfolded keeps_def, rule_format])
  moreover have "reentries ?s1 \<le> reentries s + 1"
    by (simp add: reentries_def)
  moreover have "call_handler c this h envelope re s = ?m ?s1"
    by (simp add: call_handler_def bnd_def log_def)
  ultimately show "reentries (snd (call_handler c this h envelope re s)) \<le> reentries s + 1"
    by simp
qed

lemma keeps_call_handler_first: "keeps reentries (call_handler c this h envelope False)"
  unfolding keeps_def
proof
  fix s :: "'a state"
  let ?s1 = "s\<lparr>trace := trace s @ [CallHandler h False]\<rparr>"
  let ?m = "case h of
              DeliveryReceiptHandler \<Rightarrow> handleDeliveryReceipt this envelope
            | ContentMessageHandler \<Rightarrow> handleContentMessage c this envelope
            | LegacyMessageHandler \<Rightarrow> handleLegacyMessage c this envelope"
  have "reentries (snd (?m ?s1)) = reentries ?s1"
    by (rule keeps_handler [OF world_free_reentries ignores_dispatch_reentries,
          unfolded keeps_def, rule_format])
  moreover have "reentries ?s1 = reentries s"
    by (simp add: reentries_def)
  moreover have "call_handler c this h envelope False s = ?m ?s1"
    by (simp add: call_handler_def bnd_def log_def)
  ultimately show "reentries (snd (call_handler c this h envelope False s)) = reentries s"
    by simp
qed

lemma keeps_reentries_dispatchEvent: "keeps reentries (dispatchEvent this ev)"
  by (rule keeps_dispatchEvent [OF world_free_reentries ignores_dispatch_reentries])

lemma bumps_handleEnvelope_reentrant: "bumps (handleEnvelope c this envelope True)"
  unfolding handleEnvelope_reentrant
  by (intro bumps_after_keeps keeps_lift bumps_try_catch_keeps bumps_call_handler
        keeps_if keeps_ok keeps_bnd keeps_reentries_dispatchEvent keeps_raise)

lemma bumps_handleEnvelope_first: "bumps (handleEnvelope c this envelope False)"
  by (subst handleEnvelope.simps)
    (intro bumps_after_keeps keeps_lift bumps_keeps_try_catch keeps_call_handler_first
      bumps_if bumps_ok bumps_raise keeps_reentries_dispatchEvent
      bumps_handleEnvelope_reentrant)

lemma bumps_handleEnvelope: "bumps (handleEnvelope c this envelope reentrant)"
  by (cases reentrant) (simp_all add: bumps_handleEnvelope_reentrant bumps_handleEnvelope_first)

lemma handleEnvelope_reentry_bounded:
  "reentries (snd (handleEnvelope c this envelope reentrant s)) \<le> reentries s + 1"
  using bumps_handleEnvelope [of c this envelope reentrant] by (simp add: bumps_def)

lemma handleEnvelope_identity_reentry:
  assumes "select_handler envelope = Inr h"
    and "call_handler c this h envelope False s = (Inl e, s1)"
    and "instanceof_IncomingIdentityKeyError e"
    and "dispatchEvent this (keychange_event e) s1 = (Inr ev, s2)"
  shows "handleEnvelope c this envelope False s =
           (if accepted ev
            then handleEnvelope c this (envelope\<lparr>keyChange := Some True\<rparr>) True s2
            else (Inr (), s2))"
    and "trace s2 = trace s1 @ [DispatchEvent (keychange_event e)]"
proof -
  have n: "err_name e \<noteq> ''MessageCounterError''"
    using assms(3) by (cases e) (simp_all add: instanceof_IncomingIdentityKeyError_def)
  show "handleEnvelope c this envelope False s =
           (if accepted ev
            then handleEnvelope c this (envelope\<lparr>keyChange := Some True\<rparr>) True s2
            else (Inr (), s2))"
    by (subst handleEnvelope.simps)
      (simp add: assms n lift_def try_catch_def ok_def
         bnd_def [of "lift r" for r]
         bnd_def [of "dispatchEvent this (keychange_event e)"])
  show "trace s2 = trace s1 @ [DispatchEvent (keychange_event e)]"
    using dispatchEvent_trace [of this "keychange_event e" s1] assms(4) by simp
qed

section \<open>Transport requests\<close>

text \<open>
  Claim C2, as stated: a request that is not \<^verbatim>\<open>PUT /api/v1/message\<close> is answered with
  status 400 and then fails. The source throws at once: on a \<^verbatim>\<open>GET\<close> request the call
  fails and \<^verbatim>\<open>respond\<close> has not been called at all.
\<close>

theorem handleRequest_bad_request_no_respond:
  "fst (handleRequest example_collab example_receiver get_request initial_state)
     = Inl BadTransportRequest \<and>
   responses (snd (handleRequest example_collab example_receiver get_request initial_state)) = []"
  by (simp add: handleRequest_def raise_def BadTransportRequest_def responses_def
        initial_state_def get_request_def)

text \<open>
  Claim C2, amended. A request whose verb is not \<^verbatim>\<open>PUT\<close> or whose path is not
  \<^verbatim>\<open>/api/v1/message\<close> makes \<^verbatim>\<open>handleRequest\<close> fail with \<open>BadTransportRequest\<close> in
  an unchanged state: no \<^verbatim>\<open>respond\<close> call, no event.
\<close>

theorem handleRequest_bad_request:
  assumes "path req \<noteq> ''/api/v1/message'' \<or> verb req \<noteq> ''PUT''"
  shows "handleRequest c this req s = (Inl BadTransportRequest, s)"
  using assms by (auto simp add: handleRequest_def raise_def BadTransportRequest_def)

theorem handleRequest_bad_request_witness:
  "path keepalive_request \<noteq> ''/api/v1/message'' \<and>
   handleRequest example_collab example_receiver keepalive_request initial_state
     = (Inl BadTransportRequest, initial_state)"
  using handleRequest_bad_request [of keepalive_request example_collab example_receiver
      initial_state]
  by (simp add: keepalive_request_def)

lemma decode_frame_run:
  "bnd (lift (decryptWebsocketMessage c (body req) (signalingKey this)))
     (\<lambda>d. lift (Envelope_decode c d)) s = (decode_frame c this req, s)"
  by (simp add: bnd_def lift_def decode_frame_def split: sum.splits)

lemma handleRequest_decoded:
  assumes "path req = ''/api/v1/message''" and "verb req = ''PUT''"
    and "decode_frame c this req = Inr envelope"
  shows "handleRequest c this req s =
     (fst (handleEnvelope c this envelope False s),
      snd (handleEnvelope c this envelope False s)
        \<lparr>trace := trace (snd (handleEnvelope c this envelope False s)) @ [Respond 200 ''OK'']\<rparr>)"
proof -
  let ?D = "bnd (lift (decryptWebsocketMessage c (body req) (signalingKey this)))
              (\<lambda>d. lift (Envelope_decode c d))"
  have 1: "?D s = (Inr envelope, s)"
    using decode_frame_run [of c req this s] assms(3) by simp
  have 2: "try_catch ?D h s = (Inr envelope, s)" for h
    using 1 by (simp add: try_catch_def)
  show ?thesis
    unfolding handleRequest_def using assms(1,2)
    by (simp add: bnd_def [of "try_catch ?D h" for h] 2 try_finally_def respond_def
          log_def split: prod.splits)
qed

lemma handleRequest_undecoded:
  assumes "path req = ''/api/v1/message''" and "verb req = ''PUT''"
    and "decode_frame c this req = Inl e"
    and "dispatchEvent this (new_Event ''error'' (ErrorData e None))
           (s\<lparr>trace := trace s @ [Respond 500 ''Bad encrypted websocket message'']\<rparr>) = (r, s2)"
  shows "handleRequest c this req s =
     (case r of Inl e' \<Rightarrow> (Inl e', s2) | Inr ev \<Rightarrow> (Inl e, s2))"
proof -
  let ?D = "bnd (lift (decryptWebsocketMessage c (body req) (signalingKey this)))
              (\<lambda>d. lift (Envelope_decode c d))"
  let ?h = "\<lambda>e. bnd (respond 500 ''Bad encrypted websocket message'') (\<lambda>u.
                 bnd (dispatchEvent this (new_Event ''error'' (ErrorData e None))) (\<lambda>ev.
                   raise e))"
  have 1: "?D s = (Inl e, s)"
    using decode_frame_run [of c req this s] assms(3) by simp
  have 2: "try_catch ?D ?h s = ?h e s"
    using 1 by (simp add: try_catch_def)
  have 3: "?h e s = (case r of Inl e' \<Rightarrow> (Inl e', s2) | Inr ev \<Rightarrow> (Inl e, s2))"
    using assms(4) by (simp add: bnd_def respond_def log_def raise_def split: sum.splits)
  have 4: "try_catch ?D ?h s = (Inl e', s2)" if "r = Inl e'" for e'
    using 2 3 that by simp
  have 5: "try_catch ?D ?h s = (Inl e, s2)" if "r = Inr ev" for ev
    using 2 3 that by simp
  show ?thesis
  proof (cases r)
    case (Inl e')
    then show ?thesis
      unfolding handleRequest_def using assms(1,2)
      by (simp add: bnd_def [of "try_catch ?D ?h"] 4 [OF Inl])
  next
    case (Inr ev)
    then show ?thesis
      unfolding handleRequest_def using assms(1,2)
      by (simp add: bnd_def [of "try_catch ?D ?h"] 5 [OF Inr])
  qed
qed

text \<open>
  Claim C1. The claim: a request whose frame decodes gets exactly one \<^verbatim>\<open>respond\<close> call,
  with status 200; one whose frame does not decode gets status 500, an \<^verbatim>\<open>error\<close>
  event is dispatched and the decoding error propagates. On a receiver that has a
  \<^verbatim>\<open>message\<close> listener and no \<^verbatim>\<open>error\<close> listener, a \<^verbatim>\<open>PUT /api/v1/message\<close>
  request with a broken frame is answered with 500, but dispatching the \<^verbatim>\<open>error\<close>
  event throws before \<^verbatim>\<open>throw e\<close> is reached: the \<^verbatim>\<open>TypeError\<close> of the dispatch
  propagates, not the decoding error.
\<close>

theorem handleRequest_decode_error_replaced:
  "decode_frame example_collab listening_receiver broken_request = Inl (Error ''Bad MAC'') \<and>
   handleRequest example_collab listening_receiver broken_request initial_state
     = (Inl NotIterable,
        initial_state\<lparr>trace :=
          [Respond 500 ''Bad encrypted websocket message'',
           DispatchEvent (new_Event ''error'' (ErrorData (Error ''Bad MAC'') None))]\<rparr>) \<and>
   NotIterable \<noteq> Error ''Bad MAC''"
  by (simp add: decode_frame_def handleRequest_def bnd_def lift_def try_catch_def respond_def
        log_def raise_def dispatchEvent_def example_collab_def listening_receiver_def
        example_receiver_def broken_request_def initial_state_def new_Event_def
        NotIterable_def TypeError_def Error_def)

theorem handleRequest_decode_error_replaced_witness:
  "path broken_request = ''/api/v1/message'' \<and> verb broken_request = ''PUT'' \<and>
   fst (handleRequest example_collab listening_receiver broken_request initial_state)
     = Inl NotIterable"
  using handleRequest_decode_error_replaced by (simp add: broken_request_def)

text \<open>
  What does hold of the acknowledgement of a \<^verbatim>\<open>PUT /api/v1/message\<close> request: if the
  frame decodes, exactly one \<^verbatim>\<open>respond\<close> call is added, with status 200, and the
  outcome is that of \<^verbatim>\<open>handleEnvelope\<close>, failure included; if it does not, exactly one
  \<^verbatim>\<open>respond\<close> call is added, with status 500, \<^verbatim>\<open>dispatchEvent\<close> is called once,
  with an \<^verbatim>\<open>error\<close> event carrying the decoding error, and \<^verbatim>\<open>handleRequest\<close>
  fails, with the decoding error itself whenever that dispatch completes.
\<close>

theorem handleRequest_acknowledges:
  assumes "path req = ''/api/v1/message''" and "verb req = ''PUT''"
  shows
   "(\<forall>envelope. decode_frame c this req = Inr envelope \<longrightarrow>
       responses (snd (handleRequest c this req s)) = responses s @ [200] \<and>
       fst (handleRequest c this req s) = fst (handleEnvelope c this envelope False s)) \<and>
    (\<forall>e. decode_frame c this req = Inl e \<longrightarrow>
       responses (snd (handleRequest c this req s)) = responses s @ [500] \<and>
       dispatched (snd (handleRequest c this req s))
         = dispatched s @ [new_Event ''error'' (ErrorData e None)] \<and>
       (\<exists>e'. fst (handleRequest c this req s) = Inl e') \<and>
       (can_dispatch this ''error'' \<longrightarrow> fst (handleRequest c this req s) = Inl e))"
proof (intro conjI allI impI)
  fix envelope
  assume d: "decode_frame c this req = Inr envelope"
  have k: "responses (snd (handleEnvelope c this envelope False s)) = responses s"
    using keeps_handleEnvelope [OF world_free_responses ignores_dispatch_responses
        ignores_calls_responses, of c this envelope False]
    by (simp add: keeps_def)
  show "responses (snd (handleRequest c this req s)) = responses s @ [200]"
    using k by (simp add: handleRequest_decoded [OF assms d] responses_def)
  show "fst (handleRequest c this req s) = fst (handleEnvelope c this envelope False s)"
    by (simp add: handleRequest_decoded [OF assms d])
next
  fix e
  assume d: "decode_frame c this req = Inl e"
  let ?ev = "new_Event ''error'' (ErrorData e None)"
  let ?s1 = "s\<lparr>trace := trace s @ [Respond 500 ''Bad encrypted websocket message'']\<rparr>"
  obtain r s2 where run: "dispatchEvent this ?ev ?s1 = (r, s2)"
    by (cases "dispatchEvent this ?ev ?s1")
  have t: "trace s2 = trace ?s1 @ [DispatchEvent ?ev]"
    using dispatchEvent_trace [of this ?ev ?s1] run by simp
  have res: "handleRequest c this req s = (case r of Inl e' \<Rightarrow> (Inl e', s2) | Inr ev \<Rightarrow> (Inl e, s2))"
    by (rule handleRequest_undecoded [OF assms d run])
  have snd_eq: "snd (handleRequest c this req s) = s2"
    by (simp add: res split: sum.splits)
  show "responses (snd (handleRequest c this req s)) = responses s @ [500]"
    using t by (simp add: snd_eq responses_def)
  show "dispatched (snd (handleRequest c this req s))
         = dispatched s @ [new_Event ''error'' (ErrorData e None)]"
    using t by (simp add: snd_eq dispatched_def)
  show "\<exists>e'. fst (handleRequest c this req s) = Inl e'"
    by (simp add: res split: sum.splits)
  show "fst (handleRequest c this req s) = Inl e" if cd: "can_dispatch this ''error''"
  proof -
    have "ev_type ?ev = ''error''" by (simp add: new_Event_def)
    then obtain ev' where "r = Inr ev'"
      using dispatchEvent_cases [of this ?ev ?s1] run cd by auto
    then show ?thesis by (simp add: res)
  qed
qed

theorem handleRequest_acknowledges_witness:
  "path good_request = ''/api/v1/message'' \<and> verb good_request = ''PUT'' \<and>
   decode_frame example_collab listening_receiver good_request = Inr example_envelope \<and>
   responses (snd (handleRequest example_collab listening_receiver good_request initial_state))
     = [200] \<and>
   path broken_request = ''/api/v1/message'' \<and> verb broken_request = ''PUT'' \<and>
   decode_frame example_collab listening_receiver broken_request = Inl (Error ''Bad MAC'') \<and>
   responses (snd (handleRequest example_collab listening_receiver broken_request initial_state))
     = [500]"
proof -
  have p: "path good_request = ''/api/v1/message''" "verb good_request = ''PUT''"
    "path broken_request = ''/api/v1/message''" "verb broken_request = ''PUT''"
    by (simp_all add: good_request_def broken_request_def)
  have d1: "decode_frame example_collab listening_receiver good_request = Inr example_envelope"
    by (simp add: decode_frame_def example_collab_def good_request_def)
  have d2: "decode_frame example_collab listening_receiver broken_request
      = Inl (Error ''Bad MAC'')"
    by (simp add: decode_frame_def example_collab_def broken_request_def)
  have r0: "responses initial_state = []"
    by (simp add: responses_def initial_state_def)
  show ?thesis
    using p d1 d2 r0
      handleRequest_acknowledges [OF p(1,2), of example_collab listening_receiver initial_state]
      handleRequest_acknowledges [OF p(3,4), of example_collab listening_receiver initial_state]
    by simp
qed

end
